theory Spec2Isabelle
  imports Main
begin

text \<open>
  A shallow embedding of \<open>lib/html2wt/WikitextSerializer.js\<close>, the serializer of an
  annotated HTML DOM to wikitext. Each method of the file is a function on an explicit
  serializer state; a rejected promise or a thrown error is the left summand of the
  result. The functions of the other modules of the serializer are parameters, gathered in
  records. Calls of \<open>trace\<close> are left out: they write to the trace channel of the log only.
\<close>

section \<open>JavaScript values\<close>

text \<open>
  Strings are lists of code units; the model covers code units below 256. Numbers that
  reach the serializer from data-parsoid are integers, \<open>null\<close> or absent, and
  arithmetic on them can give \<open>NaN\<close>.
\<close>

datatype jsnum = Undef | Null | Num int | NaN

datatype error = TypeError | AssertionError

text \<open>What a handler or a serialization method resolves to: nothing, \<open>null\<close> or a node.\<close>

datatype nextnode = NoNode | NullNode | NextNode nat

fun toNumber :: "jsnum \<Rightarrow> int option" where
  "toNumber Undef = None"
| "toNumber Null = Some 0"
| "toNumber (Num n) = Some n"
| "toNumber NaN = None"

definition js_gt :: "jsnum \<Rightarrow> jsnum \<Rightarrow> bool" where
  "js_gt x y = (case (toNumber x, toNumber y) of (Some i, Some j) \<Rightarrow> j < i | _ \<Rightarrow> False)"

definition js_strict_eq :: "jsnum \<Rightarrow> jsnum \<Rightarrow> bool" where
  "js_strict_eq x y = (x = y \<and> x \<noteq> NaN)"

definition js_add :: "jsnum \<Rightarrow> jsnum \<Rightarrow> jsnum" where
  "js_add x y = (case (toNumber x, toNumber y) of (Some i, Some j) \<Rightarrow> Num (i + j) | _ \<Rightarrow> NaN)"

definition js_sub :: "jsnum \<Rightarrow> jsnum \<Rightarrow> jsnum" where
  "js_sub x y = (case (toNumber x, toNumber y) of (Some i, Some j) \<Rightarrow> Num (i - j) | _ \<Rightarrow> NaN)"

text \<open>Reading an array past its end gives \<open>undefined\<close>.\<close>

definition js_index :: "jsnum list \<Rightarrow> nat \<Rightarrow> jsnum" where
  "js_index xs i = (if i < length xs then xs ! i else Undef)"

definition of_sibling :: "nat option \<Rightarrow> nextnode" where
  "of_sibling r = (case r of None \<Rightarrow> NullNode | Some k \<Rightarrow> NextNode k)"

text \<open>
  \<open>String.prototype.toLowerCase\<close> on code units below 256: a capital letter (A to Z,
  and the Latin-1 capitals) is 32 below its small letter, which is the bit 5 of the code.
\<close>

definition toLowerChar :: "char \<Rightarrow> char" where
  "toLowerChar c =
     (let n = (of_char c :: nat)
      in if (65 \<le> n \<and> n \<le> 90) \<or> (192 \<le> n \<and> n \<le> 214) \<or> (216 \<le> n \<and> n \<le> 222)
         then (case c of Char b0 b1 b2 b3 b4 b5 b6 b7 \<Rightarrow> Char b0 b1 b2 b3 b4 True b6 b7)
         else c)"

definition toLowerCase :: "string \<Rightarrow> string" where
  "toLowerCase t = map toLowerChar t"

text \<open>
  Reading \<open>obj[k]\<close> of a plain object (one that \<open>JSON.parse\<close> made, or an object literal):
  an own member first, listed here in the order of \<open>Object.keys\<close>; then the members
  that every such object inherits from \<open>Object.prototype\<close>, which are functions
  (\<open>__proto__\<close> reads the prototype object itself); else \<open>undefined\<close>.
\<close>

definition objectPrototypeMembers :: "string list" where
  "objectPrototypeMembers =
     [''constructor'', ''__defineGetter__'', ''__defineSetter__'', ''hasOwnProperty'',
      ''__lookupGetter__'', ''__lookupSetter__'', ''isPrototypeOf'', ''propertyIsEnumerable'',
      ''toString'', ''valueOf'', ''__proto__'', ''toLocaleString'']"

datatype 'a member = Own 'a | Inherited | Absent

definition getMember :: "(string \<times> 'a) list \<Rightarrow> string \<Rightarrow> 'a member" where
  "getMember obj k =
     (case map_of obj k of
        Some v \<Rightarrow> Own v
      | None \<Rightarrow> if k \<in> set objectPrototypeMembers then Inherited else Absent)"

section \<open>DOM nodes, provenance and serializer state\<close>

text \<open>Per-parameter info of a template, kept in data-parsoid (\<open>pi\<close>).\<close>

record paramInfo =
  pi_k :: string
  pi_named :: bool
  pi_spc :: "(string \<times> string \<times> string \<times> string) option"

record dataParsoid =
  dsr :: "jsnum list option"
  stx :: "string option"
  fostered :: bool
  misnested :: bool
  autoInsertedStart :: bool
  autoInsertedEnd :: bool
  selfClose :: bool
  noClose :: bool
  srcTagName :: "string option"
  sanitized_a :: "(string \<times> string option) list option"
  sanitized_sa :: "(string \<times> string option) list option"
  pi :: "paramInfo list list option"

text \<open>
  A part of a templated attribute in data-mw: a plain string, or an object with
  \<open>txt\<close> and \<open>html\<close>.
\<close>

datatype jsstr = SUndef | SNull | SStr string

datatype tplPart = PStr string | PObj jsstr jsstr

record node =
  nodeType :: nat
  nodeName :: string
  nodeValue :: string
  attributes :: "(string \<times> string) list"
  outerHTML :: string
  dp :: dataParsoid
  dataMwAttribs :: "(tplPart \<times> tplPart) list option"
  parentNode :: "nat option"
  previousSibling :: "nat option"
  nextSibling :: "nat option"
  childNodes :: "nat list"

definition ELEMENT_NODE :: nat where "ELEMENT_NODE = 1"
definition TEXT_NODE :: nat where "TEXT_NODE = 3"
definition COMMENT_NODE :: nat where "COMMENT_NODE = 8"

definition firstChild :: "node \<Rightarrow> nat option" where
  "firstChild n = (case childNodes n of [] \<Rightarrow> None | k # _ \<Rightarrow> Some k)"

record sepConstraintInfo =
  ci_onSOL :: bool
  sepType :: string
  nodeA :: "nat option"
  nodeB :: "nat option"

record separator =
  sep_src :: "string option"
  constraintInfo :: sepConstraintInfo
  lastSourceNode :: "nat option"

text \<open>
  The serializer with its state object, the DOM it reads (a store from node ids to nodes,
  since \<open>_serializeDOMNode\<close> writes a default \<open>dsr\<close> back into a node's data-parsoid)
  and the log of the environment. \<open>rest\<close> is the part of the state that only the
  collaborators of this file touch (current line, single-line context and so on).
\<close>

record 'x serializer =
  selserMode :: bool
  inModifiedContent :: bool
  currNodeUnmodified :: bool
  prevNodeUnmodified :: bool
  onSOL :: bool
  inIndentPre :: bool
  inHTMLPre :: bool
  inNoWiki :: bool
  escapeText :: bool
  sep :: separator
  out :: string
  hasIndentPreNowikis :: bool
  hasQuoteNowikis :: bool
  hasSelfClosingNowikis :: bool
  dom :: "nat \<Rightarrow> node"
  envlog :: "(string \<times> string) list"
  rest :: 'x

record ctext =
  ct_text :: string
  ct_node :: "nat option"

datatype chunk = Plain string | Constrained ctext

type_synonym ('x, 'r) res = "(error + 'r) \<times> 'x serializer"

text \<open>
  A DOM handler is an object that may have a \<open>handle\<close> method; \<open>{}\<close> has none.
\<close>

record 'x handler =
  handle :: "(nat \<Rightarrow> 'x serializer \<Rightarrow> bool \<Rightarrow> ('x, nextnode) res) option"

text \<open>
  The functions this file calls and whose code lives in other modules (SerializerState,
  DOMUtils, Util, WTSUtils, ConstrainedText, separators): they are parameters of the model.
\<close>

record 'x collab =
  emitChunk :: "chunk \<Rightarrow> nat option \<Rightarrow> 'x serializer \<Rightarrow> 'x serializer"
  getOrigSrc :: "jsnum \<Rightarrow> jsnum \<Rightarrow> 'x serializer \<Rightarrow> string"
  slcDisable :: "'x serializer \<Rightarrow> 'x serializer"
  slcPop :: "'x serializer \<Rightarrow> 'x serializer"
  setSep :: "string \<Rightarrow> 'x serializer \<Rightarrow> 'x serializer"
  updateSep :: "nat \<Rightarrow> 'x serializer \<Rightarrow> 'x serializer"
  updateModificationFlags :: "nat \<Rightarrow> 'x serializer \<Rightarrow> 'x serializer"
  origSrcValidInEditedContext :: "'x serializer \<Rightarrow> nat \<Rightarrow> bool"
  isValidDSR :: "jsnum list \<Rightarrow> bool"
  hasValidTagWidths :: "jsnum list \<Rightarrow> bool"
  hasDiffMarkers :: "'x serializer \<Rightarrow> nat \<Rightarrow> bool"
  hasInsertedDiffMark :: "'x serializer \<Rightarrow> nat \<Rightarrow> bool"
  onlySubtreeChanged :: "'x serializer \<Rightarrow> nat \<Rightarrow> bool"
  isZeroWidthWikitextElt :: "'x serializer \<Rightarrow> nat \<Rightarrow> bool"
  isFirstEncapsulationWrapperNode :: "'x serializer \<Rightarrow> nat \<Rightarrow> bool"
  skipOverEncapsulatedContent :: "'x serializer \<Rightarrow> nat \<Rightarrow> nat option"
  previousNonSepSibling :: "'x serializer \<Rightarrow> nat \<Rightarrow> nat option"
  nextNonSepSibling :: "'x serializer \<Rightarrow> nat \<Rightarrow> nat option"
  fromSelSer :: "string \<Rightarrow> nat \<Rightarrow> 'x serializer \<Rightarrow> ctext list"

text \<open>A tag token made from a node, and what \<open>getAttributeShadowInfo\<close> tells of an attribute.\<close>

record token =
  tk_name :: string
  attribs :: "(string \<times> string) list"
  dataAttribs :: dataParsoid

record shadowInfo =
  si_value :: string
  modified :: bool
  fromsrc :: bool

text \<open>The options \<open>_buildTemplateWT\<close> hands to the escape handler, and what it gets back.\<close>

record tplArgOpts =
  serializeAsNamed :: bool
  isTemplate :: bool
  argPositionalIndex :: nat
  numPositionalArgs :: nat
  argIndex :: nat
  numArgs :: nat

record escapedValue =
  ev_serializeAsNamed :: bool
  ev_v :: string

text \<open>
  Where a nested \<open>serializeHTML\<close> is called from; each stands for the options object
  written at the call.
\<close>

datatype htmlCtx = AttrKeyCtx | AttrValueCtx | TplArgCtx | ExtBodyCtx string

text \<open>Pure helpers of Util, WTSUtils, the token class and the wikitext constants.\<close>

record util =
  escapeEntities :: "string \<Rightarrow> string"
  isVoidElement :: "string \<Rightarrow> bool"
  escapeNowikiTags :: "string \<Rightarrow> string"
  lookupKV :: "(string \<times> string) list \<Rightarrow> string \<Rightarrow> bool"
  getAttributeShadowInfo :: "token \<Rightarrow> string \<Rightarrow> shadowInfo"
  commentWT :: "string \<Rightarrow> string"
  parentTableTags :: "string \<Rightarrow> bool"
  childTableTags :: "string \<Rightarrow> bool"
  escapeTplArgWT :: "string \<Rightarrow> tplArgOpts \<Rightarrow> escapedValue"
  tokensToString :: "nat \<Rightarrow> string"
  logValue :: "nat \<Rightarrow> string"

text \<open>Predicates and constructors of DOMUtils, reading the DOM of the serializer.\<close>

record 'x domutil =
  allChildrenAreText :: "'x serializer \<Rightarrow> nat option \<Rightarrow> bool"
  isElt :: "'x serializer \<Rightarrow> nat \<Rightarrow> bool"
  isNewElt :: "'x serializer \<Rightarrow> nat \<Rightarrow> bool"
  atTheTop :: "'x serializer \<Rightarrow> nat \<Rightarrow> bool"
  isDocumentFragment :: "'x serializer \<Rightarrow> nat option \<Rightarrow> bool"
  isList :: "'x serializer \<Rightarrow> nat option \<Rightarrow> bool"
  isListItem :: "'x serializer \<Rightarrow> nat \<Rightarrow> bool"
  isMarkerMeta :: "'x serializer \<Rightarrow> nat \<Rightarrow> string \<Rightarrow> bool"
  isBody :: "'x serializer \<Rightarrow> nat option \<Rightarrow> bool"
  mkTagTk :: "'x serializer \<Rightarrow> nat \<Rightarrow> token"
  mkEndTagTk :: "'x serializer \<Rightarrow> nat \<Rightarrow> token"

text \<open>
  The other modules of the serializer: the handler registry (DOMHandlers), the separator
  engine and the nested serializer that \<open>serializeHTML\<close> starts.
\<close>

record 'x modules =
  serializeHTML :: "htmlCtx \<Rightarrow> jsstr \<Rightarrow> 'x serializer \<Rightarrow> ('x, string) res"
  handleSeparatorText :: "nat \<Rightarrow> 'x serializer \<Rightarrow> bool \<times> 'x serializer"
  updateSeparatorConstraints ::
    "nat option \<Rightarrow> 'x handler option \<Rightarrow> nat option \<Rightarrow> 'x handler option
       \<Rightarrow> 'x serializer \<Rightarrow> 'x serializer"
  getEncapsulatedContentHandler :: "'x serializer \<Rightarrow> nat \<Rightarrow> 'x handler option"
  tagHandlers :: "string \<Rightarrow> 'x handler option"
  htmlElementHandler :: "'x handler"

section \<open>Serializing one DOM node, with selective reuse of the source\<close>

text \<open>\<open>dp.dsr = dp.dsr || []\<close>: an absent \<open>dsr\<close> is replaced by the empty array, in the node.\<close>

definition defaultDSR :: "nat \<Rightarrow> 'x serializer \<Rightarrow> 'x serializer" where
  "defaultDSR k s =
     (let n = dom s k;
          d = (case dsr (dp n) of None \<Rightarrow> [] | Some xs \<Rightarrow> xs)
      in s\<lparr>dom := (dom s)(k := n\<lparr>dp := (dp n)\<lparr>dsr := Some d\<rparr>\<rparr>)\<rparr>)"

definition nodeDSR :: "'x serializer \<Rightarrow> nat \<Rightarrow> jsnum list" where
  "nodeDSR s k = (case dsr (dp (dom s k)) of None \<Rightarrow> [] | Some xs \<Rightarrow> xs)"

text \<open>The regular expressions \<open>/^(P|BR|OL)$/\<close> and \<open>/^(TD|TH|TR)$/\<close> on a node name.\<close>

definition is_P_BR_OL :: "string \<Rightarrow> bool" where
  "is_P_BR_OL nm = (nm = ''P'' \<or> nm = ''BR'' \<or> nm = ''OL'')"

definition is_TD_TH_TR :: "string \<Rightarrow> bool" where
  "is_TD_TH_TR nm = (nm = ''TD'' \<or> nm = ''TH'' \<or> nm = ''TR'')"

text \<open>The condition of the outer \<open>if\<close> of \<open>_serializeDOMNode\<close>, after the default \<open>dsr\<close>.\<close>

definition selserCandidate :: "'x collab \<Rightarrow> nat \<Rightarrow> 'x serializer \<Rightarrow> bool" where
  "selserCandidate c k s =
     (let d = nodeDSR s k; p = dp (dom s k)
      in selserMode s
         \<and> \<not> inModifiedContent s
         \<and> origSrcValidInEditedContext c s k
         \<and> isValidDSR c d
         \<and> (js_gt (js_index d 1) (js_index d 0)
            \<or> (js_strict_eq (js_index d 1) (js_index d 0) \<and> is_P_BR_OL (nodeName (dom s k)))
            \<or> fostered p \<or> misnested p))"

text \<open>
  The zero-width case: the pending sibling constraint is rewritten into a parent-child
  constraint between the node and its first child.
\<close>

definition carryOverConstraints :: "'x collab \<Rightarrow> nat \<Rightarrow> 'x serializer \<Rightarrow> 'x serializer" where
  "carryOverConstraints c k s =
     (if isZeroWidthWikitextElt c s k \<and> 0 < length (childNodes (dom s k))
         \<and> sepType (constraintInfo (sep s)) = ''sibling''
      then s\<lparr>sep := (sep s)\<lparr>constraintInfo := (constraintInfo (sep s))
             \<lparr>ci_onSOL := onSOL s, sepType := ''parent-child'',
              nodeA := Some k, nodeB := firstChild (dom s k)\<rparr>\<rparr>\<rparr>
      else s)"

text \<open>
  Whether single-line context is suppressed while the source is reused. Reading
  \<open>node.parentNode.nodeName\<close> of a TABLE without a parent throws.
\<close>

definition suppressSLC :: "'x collab \<Rightarrow> nat \<Rightarrow> 'x serializer \<Rightarrow> error + bool" where
  "suppressSLC c k s =
     (let n = dom s k
      in if isFirstEncapsulationWrapperNode c s k then Inr True
         else if nodeName n \<in> set [''DL'', ''UL'', ''OL''] then Inr True
         else if nodeName n = ''TABLE'' then
           (case parentNode n of
              None \<Rightarrow> Inl TypeError
            | Some p \<Rightarrow> Inr (nodeName (dom s p) = ''DD'' \<and> previousNonSepSibling c s k = None))
         else Inr False)"

text \<open>
  \<open>ConstrainedText.fromSelSer(out, node, dp, env).forEach(...)\<close>: every chunk made from the
  original source is emitted, for the node the chunk names.
\<close>

definition emitSelSer :: "'x collab \<Rightarrow> nat \<Rightarrow> 'x serializer \<Rightarrow> 'x serializer" where
  "emitSelSer c k s =
     (let d = nodeDSR s k;
          src = getOrigSrc c (js_index d 0) (js_index d 1) s
      in foldl (\<lambda>t ct. emitChunk c (Constrained ct) (ct_node ct) t) s (fromSelSer c src k s))"

text \<open>The branch that reuses the source (the body of \<open>if (!DU.hasDiffMarkers(...))\<close>).\<close>

definition reuseOrigSrc :: "'x collab \<Rightarrow> nat \<Rightarrow> 'x serializer \<Rightarrow> ('x, nextnode) res" where
  "reuseOrigSrc c k s =
     (let s1 = carryOverConstraints c k (s\<lparr>currNodeUnmodified := True\<rparr>)
      in case suppressSLC c k s1 of
           Inl e \<Rightarrow> (Inl e, s1)
         | Inr off \<Rightarrow>
             (let s2 = (if off then slcDisable c s1 else s1);
                  s3 = emitSelSer c k s2;
                  s4 = (if off then slcPop c s3 else s3)
              in if isFirstEncapsulationWrapperNode c s4 k
                 then (Inr (of_sibling (skipOverEncapsulatedContent c s4 k)), s4)
                 else (Inr (of_sibling (nextSibling (dom s4 k))), s4)))"

text \<open>When only the subtree changed, the wrapper's tags can be taken from the source.\<close>

definition wrapperOnly :: "'x collab \<Rightarrow> nat \<Rightarrow> 'x serializer \<Rightarrow> bool" where
  "wrapperOnly c k s =
     (let p = dp (dom s k)
      in onlySubtreeChanged c s k \<and> hasValidTagWidths c (nodeDSR s k)
         \<and> ((\<not> autoInsertedStart p \<and> \<not> autoInsertedEnd p) \<or> is_TD_TH_TR (nodeName (dom s k))))"

text \<open>The tail of \<open>_serializeDOMNode\<close>: the handler is called.\<close>

definition callHandler ::
  "'x collab \<Rightarrow> 'x handler \<Rightarrow> nat \<Rightarrow> bool \<Rightarrow> 'x serializer \<Rightarrow> ('x, nextnode) res" where
  "callHandler c h k wrapperUnmodified s =
     (let s1 = s\<lparr>currNodeUnmodified := False\<rparr>;
          modified = (selserMode s1 \<and> hasInsertedDiffMark c s1 k);
          s2 = (if modified then s1\<lparr>inModifiedContent := True\<rparr> else s1)
      in case handle h of
           None \<Rightarrow> (Inl TypeError, s2)
         | Some f \<Rightarrow>
             (case f k s2 wrapperUnmodified of
                (Inl e, s3) \<Rightarrow> (Inl e, s3)
              | (Inr next, s3) \<Rightarrow>
                  (Inr next, if modified then s3\<lparr>inModifiedContent := False\<rparr> else s3)))"

definition serializeDOMNode ::
  "'x collab \<Rightarrow> 'x handler \<Rightarrow> nat \<Rightarrow> 'x serializer \<Rightarrow> ('x, nextnode) res" where
  "serializeDOMNode c h k s0 =
     (let s = defaultDSR k s0
      in if selserCandidate c k s then
           if \<not> hasDiffMarkers c s k then reuseOrigSrc c k s
           else callHandler c h k (wrapperOnly c k s) s
         else callHandler c h k False s)"

section \<open>Character classes and the separator regular expressions\<close>

abbreviation NL :: char where "NL \<equiv> CHR 0x0A"

text \<open>The class \<open>\s\<close>, on code units below 256.\<close>

definition is_space :: "char \<Rightarrow> bool" where
  "is_space c = (c = CHR 0x09 \<or> c = CHR 0x0A \<or> c = CHR 0x0B \<or> c = CHR 0x0C \<or> c = CHR 0x0D
                 \<or> c = CHR 0x20 \<or> c = CHR 0xA0)"

text \<open>The class \<open>[ \t]\<close>.\<close>

definition is_blank :: "char \<Rightarrow> bool" where
  "is_blank c = (c = CHR 0x20 \<or> c = CHR 0x09)"

text \<open>
  \<open>sepSuffixWithNlsRE = /\n\s*$/\<close>: the leftmost newline after which only whitespace
  follows; the match is the rest of the string from there.
\<close>

fun sepSuffixMatch :: "string \<Rightarrow> string option" where
  "sepSuffixMatch [] = None"
| "sepSuffixMatch (c # r) =
     (if c = NL \<and> list_all is_space r then Some (c # r) else sepSuffixMatch r)"

definition stripSepSuffix :: "string \<Rightarrow> string" where
  "stripSepSuffix t =
     (case sepSuffixMatch t of None \<Rightarrow> t | Some m \<Rightarrow> take (length t - length m) t)"

text \<open>
  \<open>sepPrefixWithNlsRE = /^[ \t]*\n+\s*/\<close>, replaced by the empty string: blanks, then at
  least one newline, then all the whitespace that follows.
\<close>

definition stripSepPrefix :: "string \<Rightarrow> string" where
  "stripSepPrefix t =
     (case dropWhile is_blank t of
        [] \<Rightarrow> t
      | c # r \<Rightarrow> if c = NL then dropWhile is_space r else t)"

text \<open>
  \<open>doubleNewlineRE_G = /\n([ \t]*\n)+/g\<close>. \<open>blankLine\<close> is one group \<open>[ \t]*\n\<close> at the
  head of the string (it gives what follows the group), \<open>blankLines\<close> skips as many
  groups as there are.
\<close>

fun blankLine :: "string \<Rightarrow> string option" where
  "blankLine [] = None"
| "blankLine (c # r) = (if c = NL then Some r else if is_blank c then blankLine r else None)"

function blankLines :: "string \<Rightarrow> string" where
  "blankLines [] = []"
| "blankLines (c # r) = (case blankLine (c # r) of None \<Rightarrow> c # r | Some u \<Rightarrow> blankLines u)"
  by pat_completeness auto
termination
proof (relation "measure length")
  show "wf (measure length)" by simp
next
  fix c :: char and r u :: string
  assume a: "blankLine (c # r) = Some u"
  have "blankLine t = Some v \<Longrightarrow> length v < length t" for t v
    by (induction t) (auto split: if_splits)
  from this [OF a] show "(u, c # r) \<in> measure length" by simp
qed

text \<open>The number of matches of \<open>doubleNewlineRE_G\<close> in a string.\<close>

function doubleNewlineCount :: "string \<Rightarrow> nat" where
  "doubleNewlineCount [] = 0"
| "doubleNewlineCount (c # r) =
     (if c = NL then
        (case blankLine r of
           None \<Rightarrow> doubleNewlineCount r
         | Some u \<Rightarrow> Suc (doubleNewlineCount (blankLines u)))
      else doubleNewlineCount r)"
  by pat_completeness auto
termination
proof (relation "measure length")
  show "wf (measure length)" by simp
next
  fix c :: char and r :: string
  show "(r, c # r) \<in> measure length" by simp
next
  fix c :: char and r u :: string
  assume a: "blankLine r = Some u"
  have b: "blankLine t = Some v \<Longrightarrow> length v < length t" for t v
    by (induction t) (auto split: if_splits)
  have "length (blankLines v) \<le> length v" for v
  proof (induction v rule: blankLines.induct)
    case 1
    show ?case by simp
  next
    case (2 c r)
    show ?case
    proof (cases "blankLine (c # r)")
      case None
      then show ?thesis by simp
    next
      case (Some w)
      with 2 b [OF Some] show ?thesis by simp
    qed
  qed
  from this [of u] b [OF a] show "(blankLines u, c # r) \<in> measure length" by simp
next
  fix c :: char and r :: string
  show "(r, c # r) \<in> measure length" by simp
qed

text \<open>\<open>res.replace(doubleNewlineRE_G, '\n')\<close>.\<close>

function collapseNewlines :: "string \<Rightarrow> string" where
  "collapseNewlines [] = []"
| "collapseNewlines (c # r) =
     (if c = NL then
        (case blankLine r of
           None \<Rightarrow> c # collapseNewlines r
         | Some u \<Rightarrow> NL # collapseNewlines (blankLines u))
      else c # collapseNewlines r)"
  by pat_completeness auto
termination
proof (relation "measure length")
  show "wf (measure length)" by simp
next
  fix c :: char and r :: string
  show "(r, c # r) \<in> measure length" by simp
next
  fix c :: char and r u :: string
  assume a: "blankLine r = Some u"
  have b: "blankLine t = Some v \<Longrightarrow> length v < length t" for t v
    by (induction t) (auto split: if_splits)
  have "length (blankLines v) \<le> length v" for v
  proof (induction v rule: blankLines.induct)
    case 1
    show ?case by simp
  next
    case (2 c r)
    show ?case
    proof (cases "blankLine (c # r)")
      case None
      then show ?thesis by simp
    next
      case (Some w)
      with 2 b [OF Some] show ?thesis by simp
    qed
  qed
  from this [of u] b [OF a] show "(blankLines u, c # r) \<in> measure length" by simp
next
  fix c :: char and r :: string
  show "(r, c # r) \<in> measure length" by simp
qed

section \<open>Text nodes\<close>

text \<open>
  Lines 701 to 730 of \<open>_serializeTextNode\<close>: the text that is emitted for a text node.
\<close>

definition textChunk :: "util \<Rightarrow> 'x domutil \<Rightarrow> nat \<Rightarrow> 'x serializer \<Rightarrow> string" where
  "textChunk u du k s =
     (let res0 = nodeValue (dom s k);
          cnt = doubleNewlineCount res0;
          res1 = stripSepSuffix res0;
          res2 = (if \<not> inIndentPre s then
                    stripSepPrefix
                      (if \<not> inHTMLPre s
                          \<and> (\<not> allChildrenAreText du s (parentNode (dom s k)) \<or> cnt \<noteq> 1)
                       then collapseNewlines res1 else res1)
                  else res1)
      in escapeEntities u res2)"

text \<open>
  Lines 734 to 737: the flag is computed and set, the chunk is emitted, the flag is reset.
\<close>

definition emitTextChunk ::
  "'x collab \<Rightarrow> string \<Rightarrow> nat \<Rightarrow> 'x serializer \<Rightarrow> 'x serializer" where
  "emitTextChunk c res k s =
     (let s1 = s\<lparr>escapeText := (onSOL s \<or> \<not> currNodeUnmodified s)
                                  \<and> \<not> inNoWiki s \<and> \<not> inHTMLPre s\<rparr>;
          s2 = emitChunk c (Plain res) (Some k) s1
      in s2\<lparr>escapeText := False\<rparr>)"

text \<open>
  Lines 740 to 747 (and the same lines of \<open>emitWikitext\<close>): trailing newlines move into
  the next separator, unless the pending separator already has a source.
\<close>

definition moveTrailingNewlines ::
  "'x collab \<Rightarrow> string option \<Rightarrow> nat \<Rightarrow> 'x serializer \<Rightarrow> 'x serializer" where
  "moveTrailingNewlines c newSepMatch k s =
     (case newSepMatch of
        None \<Rightarrow> s
      | Some m \<Rightarrow>
          if sep_src (sep s) = None \<or> sep_src (sep s) = Some []
          then updateSep c k (setSep c m s) else s)"

definition serializeTextNode ::
  "'x collab \<Rightarrow> util \<Rightarrow> 'x domutil \<Rightarrow> nat \<Rightarrow> 'x serializer \<Rightarrow> ('x, nextnode) res" where
  "serializeTextNode c u du k s =
     (let res = textChunk u du k s;
          newSepMatch = sepSuffixMatch (nodeValue (dom s k));
          s1 = emitTextChunk c res k s
      in (Inr NoNode, moveTrailingNewlines c newSepMatch k s1))"

text \<open>\<open>emitWikitext\<close>: non-separator wikitext that needs no escaping.\<close>

definition emitWikitext :: "'x collab \<Rightarrow> string \<Rightarrow> nat \<Rightarrow> 'x serializer \<Rightarrow> 'x serializer" where
  "emitWikitext c txt k s =
     (let res = stripSepPrefix txt;
          newSepMatch = sepSuffixMatch res;
          s1 = emitChunk c (Plain (stripSepSuffix res)) (Some k) s
      in moveTrailingNewlines c newSepMatch k s1)"

section \<open>Attributes\<close>

abbreviation DQ :: char where "DQ \<equiv> CHR 0x22"

definition IGNORED_ATTRIBUTES :: "string list" where
  "IGNORED_ATTRIBUTES = [''data-parsoid'', ''data-ve-changed'', ''data-parsoid-changed'',
     ''data-parsoid-diff'', ''data-parsoid-serialize'']"

text \<open>The classes \<open>\w\<close> and \<open>\d\<close>.\<close>

definition is_digit :: "char \<Rightarrow> bool" where
  "is_digit c = (let n = (of_char c :: nat) in 48 \<le> n \<and> n \<le> 57)"

definition is_word :: "char \<Rightarrow> bool" where
  "is_word c =
     (let n = (of_char c :: nat)
      in (48 \<le> n \<and> n \<le> 57) \<or> (65 \<le> n \<and> n \<le> 90) \<or> (97 \<le> n \<and> n \<le> 122) \<or> n = 95)"

text \<open>\<open>/^mw[\w-]{2,}$/\<close>: an id that looks as if the parser had made it.\<close>

definition isParsoidId :: "string \<Rightarrow> bool" where
  "isParsoidId v =
     (case v of
        a # b # r \<Rightarrow> a = CHR ''m'' \<and> b = CHR ''w'' \<and> 2 \<le> length r
                     \<and> list_all (\<lambda>c. is_word c \<or> c = CHR ''-'') r
      | _ \<Rightarrow> False)"

text \<open>\<open>/^#mwt\d+$/\<close>, the value of a parser-made \<open>about\<close>.\<close>

definition isParsoidAbout :: "string \<Rightarrow> bool" where
  "isParsoidAbout v =
     (take 4 v = ''#mwt'' \<and> drop 4 v \<noteq> [] \<and> list_all is_digit (drop 4 v))"

text \<open>
  \<open>/(^|\s)mw:[^\s]+/g\<close> on a \<open>typeof\<close>. \<open>mwType\<close> is \<open>mw:[^\s]+\<close> at the head of a string
  and gives what follows the match. \<open>typeofScan\<close> walks the string (the flag says that
  it stands at the start) and gives whether there was a match, and the string with every
  match removed.
\<close>

definition mwType :: "string \<Rightarrow> string option" where
  "mwType t =
     (if take 3 t = ''mw:'' \<and> drop 3 t \<noteq> [] \<and> \<not> is_space (hd (drop 3 t))
      then Some (dropWhile (\<lambda>c. \<not> is_space c) (drop 3 t)) else None)"

function typeofScan :: "bool \<Rightarrow> string \<Rightarrow> bool \<times> string" where
  "typeofScan atStart [] = (False, [])"
| "typeofScan atStart (c # r) =
     (case (if atStart then mwType (c # r) else None) of
        Some w \<Rightarrow> (True, snd (typeofScan False w))
      | None \<Rightarrow>
          (case (if is_space c then mwType r else None) of
             Some w \<Rightarrow> (True, snd (typeofScan False w))
           | None \<Rightarrow> (let (b, t) = typeofScan False r in (b, c # t))))"
  by pat_completeness auto
termination
proof (relation "measure (\<lambda>(b, t). length t)")
  show "wf (measure (\<lambda>(b :: bool, t :: string). length t))" by simp
next
  fix atStart :: bool and c :: char and r w :: string
  assume "(if atStart then mwType (c # r) else None) = Some w"
  then have "mwType (c # r) = Some w" by (simp split: if_splits)
  then have "length w \<le> length (c # r) - 3" and "3 \<le> length (c # r)"
    using length_dropWhile_le [of "\<lambda>c. \<not> is_space c" "drop 3 (c # r)"]
    by (auto simp: mwType_def split: if_splits)
  then show "((False, w), (atStart, c # r)) \<in> measure (\<lambda>(b, t). length t)" by simp
next
  fix atStart :: bool and c :: char and r w :: string
  assume "(if is_space c then mwType r else None) = Some w"
  then have "mwType r = Some w" by (simp split: if_splits)
  then have "length w \<le> length r"
    using length_dropWhile_le [of "\<lambda>c. \<not> is_space c" "drop 3 r"]
    by (auto simp: mwType_def split: if_splits)
  then show "((False, w), (atStart, c # r)) \<in> measure (\<lambda>(b, t). length t)" by simp
next
  fix atStart :: bool and c :: char and r :: string
  show "((False, r), (atStart, c # r)) \<in> measure (\<lambda>(b, t). length t)" by simp
qed

text \<open>
  \<open>PARSOID_ATTRIBUTES\<close>: for \<open>about\<close> and \<open>typeof\<close>, when the value matches the key's
  expression, the value with the matches removed.
\<close>

definition parsoidValueStrip :: "string \<Rightarrow> string \<Rightarrow> string option" where
  "parsoidValueStrip k v =
     (if k = ''about'' then (if isParsoidAbout v then Some [] else None)
      else if k = ''typeof'' then
        (if fst (typeofScan True v) then Some (snd (typeofScan True v)) else None)
      else None)"

text \<open>\<open>replace(/"/g, '&quot;')\<close>, and an attribute written as \<open>k="v"\<close>.\<close>

definition quoteAttr :: "string \<Rightarrow> string" where
  "quoteAttr v = concat (map (\<lambda>c. if c = DQ then ''&quot;'' else [c]) v)"

definition kvEntry :: "string \<Rightarrow> string \<Rightarrow> string" where
  "kvEntry k v = k @ ''='' @ [DQ] @ v @ [DQ]"

text \<open>\<open>kk.replace(/^data-x-/i, '')\<close>.\<close>

definition stripDataX :: "string \<Rightarrow> string" where
  "stripDataX kk = (if toLowerCase (take 7 kk) = ''data-x-'' then drop 7 kk else kk)"

text \<open>\<open>Array.prototype.join\<close>.\<close>

fun joinStrings :: "string \<Rightarrow> string list \<Rightarrow> string" where
  "joinStrings d [] = []"
| "joinStrings d [x] = x"
| "joinStrings d (x # y # ys) = x @ d @ joinStrings d (y # ys)"

fun partTxt :: "tplPart \<Rightarrow> jsstr" where
  "partTxt (PStr t) = SUndef"
| "partTxt (PObj t h) = t"

fun partHtml :: "tplPart \<Rightarrow> jsstr" where
  "partHtml (PStr t) = SUndef"
| "partHtml (PObj t h) = h"

fun truthyStr :: "jsstr \<Rightarrow> bool" where
  "truthyStr (SStr t) = (t \<noteq> [])"
| "truthyStr _ = False"

text \<open>\<open>getAttributeKey\<close>: a key that a template generated is serialized back from its HTML.\<close>

fun attributeKeyLoop ::
  "'x modules \<Rightarrow> string \<Rightarrow> (tplPart \<times> tplPart) list \<Rightarrow> 'x serializer \<Rightarrow> ('x, string) res" where
  "attributeKeyLoop m key [] s = (Inr key, s)"
| "attributeKeyLoop m key (a # as) s =
     (if partTxt (fst a) = SStr key \<and> truthyStr (partHtml (fst a))
      then serializeHTML m AttrKeyCtx (partHtml (fst a)) s
      else attributeKeyLoop m key as s)"

definition getAttributeKey ::
  "'x modules \<Rightarrow> nat \<Rightarrow> string \<Rightarrow> 'x serializer \<Rightarrow> ('x, string) res" where
  "getAttributeKey m nd key s =
     (case dataMwAttribs (dom s nd) of
        None \<Rightarrow> (Inr key, s)
      | Some tplAttrs \<Rightarrow> attributeKeyLoop m key tplAttrs s)"

text \<open>
  \<open>getAttributeValue\<close>; the condition reads
  \<open>a[0] === key || (a[0].txt === key && a[1].html !== null)\<close>.
\<close>

fun attributeValueLoop ::
  "'x modules \<Rightarrow> string \<Rightarrow> string \<Rightarrow> (tplPart \<times> tplPart) list \<Rightarrow> 'x serializer
     \<Rightarrow> ('x, string) res" where
  "attributeValueLoop m key v [] s = (Inr v, s)"
| "attributeValueLoop m key v (a # as) s =
     (if fst a = PStr key \<or> (partTxt (fst a) = SStr key \<and> partHtml (snd a) \<noteq> SNull)
      then serializeHTML m AttrValueCtx (partHtml (snd a)) s
      else attributeValueLoop m key v as s)"

definition getAttributeValue ::
  "'x modules \<Rightarrow> nat \<Rightarrow> string \<Rightarrow> string \<Rightarrow> 'x serializer \<Rightarrow> ('x, string) res" where
  "getAttributeValue m nd key v s =
     (case dataMwAttribs (dom s nd) of
        None \<Rightarrow> (Inr v, s)
      | Some tplAttrs \<Rightarrow> attributeValueLoop m key v tplAttrs s)"

text \<open>\<open>!node.getAttribute("data-parsoid")\<close>: the attribute is absent or empty.\<close>

definition lacksDataParsoid :: "node \<Rightarrow> bool" where
  "lacksDataParsoid n =
     (case map_of (attributes n) ''data-parsoid'' of None \<Rightarrow> True | Some v \<Rightarrow> v = [])"

definition idWarning :: "string \<Rightarrow> node \<Rightarrow> string \<times> string" where
  "idWarning v n =
     (''warning/html2wt'',
      ''Parsoid id found on element without a matching data-parsoid entry: ID='' @ v
        @ ''; ELT='' @ outerHTML n)"

text \<open>
  The last branch of the callback (lines 290 to 321): an attribute with a key goes through
  the templated key and value; both calls are made before either result is awaited.
\<close>

definition serializeOtherAttr ::
  "util \<Rightarrow> 'x modules \<Rightarrow> nat \<Rightarrow> token \<Rightarrow> string \<times> string \<Rightarrow> string list \<Rightarrow> 'x serializer
     \<Rightarrow> ('x, string list) res" where
  "serializeOtherAttr u m nd tok kv outl s =
     (let k = fst kv in
      if k \<noteq> [] then
        (let vInfo = getAttributeShadowInfo u tok k;
             (rk, s1) = getAttributeKey m nd k s;
             (rv, s2) = getAttributeValue m nd k (si_value vInfo) s1
         in case rk of
              Inl e \<Rightarrow> (Inl e, s2)
            | Inr kk0 \<Rightarrow>
               (case rv of
                  Inl e \<Rightarrow> (Inl e, s2)
                | Inr vv \<Rightarrow>
                   (let kk = stripDataX kk0 in
                    if vv \<noteq> [] then
                      (Inr (outl @ [kvEntry kk (quoteAttr
                              (if \<not> fromsrc vInfo then escapeEntities u vv else vv))]), s2)
                    else if (\<exists>ch \<in> set kk. ch = CHR ''{'' \<or> ch = CHR ''<'')
                      then (Inr (outl @ [kk]), s2)
                    else (Inr (outl @ [kk @ ''='' @ [DQ, DQ]]), s2))))
      else if snd kv \<noteq> [] then (Inr (outl @ [snd kv]), s)
      else (Inr outl, s))"

text \<open>The callback of \<open>Promise.reduce\<close> in \<open>_serializeAttributes\<close>, for one attribute.\<close>

definition serializeAttr ::
  "util \<Rightarrow> 'x modules \<Rightarrow> nat \<Rightarrow> token \<Rightarrow> string \<times> string \<Rightarrow> string list \<Rightarrow> 'x serializer
     \<Rightarrow> ('x, string list) res" where
  "serializeAttr u m nd tok kv outl s =
     (let k = fst kv; v = snd kv in
      if k \<in> set IGNORED_ATTRIBUTES \<or> k = ''data-mw'' then (Inr outl, s)
      else if k = ''id'' \<and> isParsoidId v then
        (if lacksDataParsoid (dom s nd)
         then (Inr outl, s\<lparr>envlog := envlog s @ [idWarning v (dom s nd)]\<rparr>)
         else (let vInfo = getAttributeShadowInfo u tok k in
               if \<not> modified vInfo \<and> fromsrc vInfo
               then (Inr (outl @ [kvEntry k (quoteAttr (si_value vInfo))]), s)
               else (Inr outl, s)))
      else
        (case parsoidValueStrip k v of
           Some w \<Rightarrow> (Inr (if w \<noteq> [] then outl @ [kvEntry k w] else outl), s)
         | None \<Rightarrow> serializeOtherAttr u m nd tok kv outl s))"

fun serializeAttrs ::
  "util \<Rightarrow> 'x modules \<Rightarrow> nat \<Rightarrow> token \<Rightarrow> (string \<times> string) list \<Rightarrow> string list
     \<Rightarrow> 'x serializer \<Rightarrow> ('x, string list) res" where
  "serializeAttrs u m nd tok [] outl s = (Inr outl, s)"
| "serializeAttrs u m nd tok (kv # kvs) outl s =
     (case serializeAttr u m nd tok kv outl s of
        (Inl e, s1) \<Rightarrow> (Inl e, s1)
      | (Inr o1, s1) \<Rightarrow> serializeAttrs u m nd tok kvs o1 s1)"

text \<open>
  Lines 333 to 349: attributes that sanitization removed (keys of \<open>dataAttribs.a\<close> that
  are not among the token's attributes) are added back from \<open>dataAttribs.sa\<close>. For a key
  that \<open>sa\<close> does not have but every object inherits, \<open>dataAttribs.sa[k]\<close> is a function or
  the prototype object: it is truthy and has no \<open>replace\<close>, and the call throws.
\<close>

definition restoreAttr ::
  "util \<Rightarrow> token \<Rightarrow> (string \<times> string option) list \<Rightarrow> string \<Rightarrow> string list
     \<Rightarrow> error + string list" where
  "restoreAttr u tok sa k outl =
     (if \<not> lookupKV u (attribs tok) k then
        (case getMember sa k of
           Own (Some v) \<Rightarrow>
             Inr (if v \<noteq> [] then outl @ [kvEntry k (quoteAttr v)] else outl @ [k])
         | Own None \<Rightarrow> Inr (outl @ [k])
         | Inherited \<Rightarrow> Inl TypeError
         | Absent \<Rightarrow> Inr (outl @ [k]))
      else Inr outl)"

fun restoreAttrs ::
  "util \<Rightarrow> token \<Rightarrow> (string \<times> string option) list \<Rightarrow> string list \<Rightarrow> string list
     \<Rightarrow> error + string list" where
  "restoreAttrs u tok sa [] outl = Inr outl"
| "restoreAttrs u tok sa (k # ks) outl =
     (case restoreAttr u tok sa k outl of
        Inl e \<Rightarrow> Inl e
      | Inr o1 \<Rightarrow> restoreAttrs u tok sa ks o1)"

definition restoreSanitized :: "util \<Rightarrow> token \<Rightarrow> string list \<Rightarrow> error + string list" where
  "restoreSanitized u tok outl =
     (case (sanitized_a (dataAttribs tok), sanitized_sa (dataAttribs tok)) of
        (Some a, Some sa) \<Rightarrow> restoreAttrs u tok sa (map fst a) outl
      | _ \<Rightarrow> Inr outl)"

definition serializeAttributes ::
  "util \<Rightarrow> 'x modules \<Rightarrow> nat \<Rightarrow> token \<Rightarrow> 'x serializer \<Rightarrow> ('x, string) res" where
  "serializeAttributes u m nd tok s =
     (case serializeAttrs u m nd tok (attribs tok) [] s of
        (Inl e, s1) \<Rightarrow> (Inl e, s1)
      | (Inr outl, s1) \<Rightarrow>
          (case restoreSanitized u tok outl of
             Inl e \<Rightarrow> (Inl e, s1)
           | Inr o1 \<Rightarrow> (Inr (joinStrings '' '' o1), s1)))"

section \<open>HTML tags\<close>

definition serializeHTMLTag ::
  "'x collab \<Rightarrow> util \<Rightarrow> 'x domutil \<Rightarrow> 'x modules \<Rightarrow> nat \<Rightarrow> bool \<Rightarrow> 'x serializer
     \<Rightarrow> ('x, string) res" where
  "serializeHTMLTag c u du m nd wrapperUnmodified s0 =
     (let tok = mkTagTk du s0 nd;
          s = (if tk_name tok = ''pre'' then s0\<lparr>inHTMLPre := True\<rparr> else s0)
      in if wrapperUnmodified then
           (case dsr (dp (dom s nd)) of
              None \<Rightarrow> (Inl TypeError, s)
            | Some d \<Rightarrow>
                (Inr (getOrigSrc c (js_index d 0) (js_add (js_index d 0) (js_index d 2)) s), s))
         else
           (let da = dataAttribs tok in
            if autoInsertedStart da then (Inr [], s)
            else
              (let close = (if (isVoidElement u (tk_name tok) \<and> \<not> noClose da) \<or> selfClose da
                            then '' /'' else [])
               in case serializeAttributes u m nd tok s of
                    (Inl e, s1) \<Rightarrow> (Inl e, s1)
                  | (Inr sAttribs0, s1) \<Rightarrow>
                      (let sAttribs = (if 0 < length sAttribs0 then '' '' @ sAttribs0
                                       else sAttribs0);
                           tokenName = (case srcTagName da of
                                          None \<Rightarrow> tk_name tok
                                        | Some t \<Rightarrow> if t \<noteq> [] then t else tk_name tok);
                           ret = ''<'' @ tokenName @ sAttribs @ close @ ''>''
                       in (Inr (if toLowerCase tokenName = ''nowiki''
                                then escapeNowikiTags u ret else ret), s1)))))"

definition serializeHTMLEndTag ::
  "'x collab \<Rightarrow> util \<Rightarrow> 'x domutil \<Rightarrow> nat \<Rightarrow> bool \<Rightarrow> 'x serializer \<Rightarrow> ('x, string) res" where
  "serializeHTMLEndTag c u du nd wrapperUnmodified s0 =
     (if wrapperUnmodified then
        (case dsr (dp (dom s0 nd)) of
           None \<Rightarrow> (Inl TypeError, s0)
         | Some d \<Rightarrow>
             (Inr (getOrigSrc c (js_sub (js_index d 1) (js_index d 3)) (js_index d 1) s0), s0))
      else
        (let tok = mkEndTagTk du s0 nd;
             s = (if tk_name tok = ''pre'' then s0\<lparr>inHTMLPre := False\<rparr> else s0);
             da = dataAttribs tok;
             tokenName = (case srcTagName da of
                            None \<Rightarrow> tk_name tok
                          | Some t \<Rightarrow> if t \<noteq> [] then t else tk_name tok);
             ret = (if \<not> autoInsertedEnd da \<and> \<not> isVoidElement u (tk_name tok) \<and> \<not> selfClose da
                    then ''</'' @ tokenName @ ''>'' else [])
         in (Inr (if toLowerCase tokenName = ''nowiki'' then escapeNowikiTags u ret else ret), s)))"

section \<open>Handler selection and the walker step\<close>

text \<open>
  Lines 677 to 682 of \<open>_getDOMHandler\<close>: a new element under an HTML-syntax list or table.
  The data-parsoid and the name of the parent are read; with no parent that read throws.
\<close>

definition newEltInHtmlParent :: "'x domutil \<Rightarrow> util \<Rightarrow> 'x serializer \<Rightarrow> nat \<Rightarrow> error + bool" where
  "newEltInHtmlParent du u s k =
     (let par = parentNode (dom s k) in
      if isNewElt du s k \<and> \<not> atTheTop du s k \<and> \<not> isDocumentFragment du s par then
        (case par of
           None \<Rightarrow> Inl TypeError
         | Some p \<Rightarrow>
             Inr (stx (dp (dom s p)) = Some ''html''
                  \<and> ((isList du s par \<and> isListItem du s k)
                     \<or> (parentTableTags u (nodeName (dom s p))
                        \<and> childTableTags u (nodeName (dom s k))))))
      else Inr False)"

definition getDOMHandler ::
  "'x domutil \<Rightarrow> util \<Rightarrow> 'x modules \<Rightarrow> 'x serializer \<Rightarrow> nat option \<Rightarrow> error + 'x handler" where
  "getDOMHandler du u m s node =
     (case node of
        None \<Rightarrow> Inr \<lparr>handle = None\<rparr>
      | Some k \<Rightarrow>
          if \<not> isElt du s k then Inr \<lparr>handle = None\<rparr>
          else
            (case getEncapsulatedContentHandler m s k of
               Some h \<Rightarrow> Inr h
             | None \<Rightarrow>
                 (let p = dp (dom s k);
                      nm = toLowerCase (nodeName (dom s k));
                      handler = tagHandlers m
                                  (nm @ ''_'' @ (case stx p of None \<Rightarrow> ''undefined'' | Some x \<Rightarrow> x))
                  in if (case handler of None \<Rightarrow> True | Some h \<Rightarrow> False)
                        \<and> stx p = Some ''html'' \<and> nm \<noteq> ''a''
                     then Inr (htmlElementHandler m)
                     else
                       (case newEltInHtmlParent du u s k of
                          Inl e \<Rightarrow> Inl e
                        | Inr True \<Rightarrow> Inr (htmlElementHandler m)
                        | Inr False \<Rightarrow>
                            Inr (case handler of
                                   Some h \<Rightarrow> h
                                 | None \<Rightarrow>
                                     (case tagHandlers m nm of
                                        Some h \<Rightarrow> h
                                      | None \<Rightarrow> htmlElementHandler m))))))"

text \<open>\<open>a || node.parentNode\<close> for a sibling that may be missing.\<close>

definition orParent :: "nat option \<Rightarrow> node \<Rightarrow> nat option" where
  "orParent r n = (case r of None \<Rightarrow> parentNode n | Some j \<Rightarrow> Some j)"

text \<open>
  Lines 994 to 1009 of \<open>_serializeNode\<close>: what is done with the result of the node's
  method.
\<close>

definition afterMethod ::
  "'x collab \<Rightarrow> util \<Rightarrow> 'x domutil \<Rightarrow> 'x modules \<Rightarrow> nat \<Rightarrow> 'x handler option
     \<Rightarrow> ('x, nextnode) res \<Rightarrow> ('x, nextnode) res" where
  "afterMethod c u du m k domHandler r =
     (case r of
        (Inl e, s) \<Rightarrow> (Inl e, s)
      | (Inr nextNode, s) \<Rightarrow>
          (let next = orParent (nextNonSepSibling c s k) (dom s k) in
           case getDOMHandler du u m s next of
             Inl e \<Rightarrow> (Inl e, s)
           | Inr hn \<Rightarrow>
               (let s1 = updateSeparatorConstraints m (Some k) domHandler next (Some hn) s;
                    s2 = updateModificationFlags c k s1
                in (Inr (if nextNode = NoNode then of_sibling (nextSibling (dom s2 k))
                         else nextNode), s2))))"

text \<open>
  Lines 989 to 994: the separator constraints with the previous node are updated and the
  method is called. After the \<open>default\<close> case of the switch there is no method.
\<close>

definition callMethod ::
  "'x collab \<Rightarrow> util \<Rightarrow> 'x domutil \<Rightarrow> 'x modules \<Rightarrow> nat \<Rightarrow> 'x handler option
     \<Rightarrow> (nat \<Rightarrow> 'x serializer \<Rightarrow> ('x, nextnode) res) option \<Rightarrow> 'x serializer
     \<Rightarrow> ('x, nextnode) res" where
  "callMethod c u du m k domHandler method s =
     (let prev = orParent (previousNonSepSibling c s k) (dom s k) in
      case getDOMHandler du u m s prev of
        Inl e \<Rightarrow> (Inl e, s)
      | Inr hp \<Rightarrow>
          (let s1 = updateSeparatorConstraints m prev (Some hp) (Some k) domHandler s in
           case method of
             None \<Rightarrow> (Inl TypeError, s1)
           | Some f \<Rightarrow> afterMethod c u du m k domHandler (f k s1)))"

text \<open>
  The assertion of line 959: the handler must have a \<open>handle\<close> method.
\<close>

definition assertHandler :: "error + 'x handler \<Rightarrow> error + 'x handler" where
  "assertHandler r =
     (case r of
        Inl e \<Rightarrow> Inl e
      | Inr h \<Rightarrow> (case handle h of None \<Rightarrow> Inl AssertionError | Some f \<Rightarrow> Inr h))"

text \<open>In selser mode, whether a text node counts as unmodified (lines 967 to 977).\<close>

definition textUnmodified :: "'x domutil \<Rightarrow> nat \<Rightarrow> 'x serializer \<Rightarrow> bool" where
  "textUnmodified du k s =
     (let prev = previousSibling (dom s k) in
      \<not> inModifiedContent s
      \<and> (case prev of
           None \<Rightarrow> isBody du s (parentNode (dom s k))
         | Some p \<Rightarrow> \<not> isMarkerMeta du s p ''mw:DiffMarker''))"

definition serializeNode ::
  "'x collab \<Rightarrow> util \<Rightarrow> 'x domutil \<Rightarrow> 'x modules \<Rightarrow> nat \<Rightarrow> 'x serializer \<Rightarrow> ('x, nextnode) res" where
  "serializeNode c u du m k s =
     (let n = dom s k in
      if nodeType n = ELEMENT_NODE then
        (if isMarkerMeta du s k ''mw:DiffMarker'' then
           (let s1 = updateModificationFlags c k (s\<lparr>sep := (sep s)\<lparr>lastSourceNode := Some k\<rparr>\<rparr>)
            in (Inr (of_sibling (nextSibling (dom s1 k))), s1))
         else
           (case assertHandler (getDOMHandler du u m s (Some k)) of
              Inl e \<Rightarrow> (Inl e, s)
            | Inr h \<Rightarrow> callMethod c u du m k (Some h) (Some (serializeDOMNode c h)) s))
      else if nodeType n = TEXT_NODE then
        (case handleSeparatorText m k s of
           (True, s1) \<Rightarrow> (Inr (of_sibling (nextSibling (dom s1 k))), s1)
         | (False, s1) \<Rightarrow>
             (let s2 = (if selserMode s1
                        then s1\<lparr>currNodeUnmodified := textUnmodified du k s1\<rparr> else s1)
              in callMethod c u du m k (Some \<lparr>handle = None\<rparr>)
                   (Some (serializeTextNode c u du)) s2))
      else if nodeType n = COMMENT_NODE then
        (let s1 = setSep c ((case sep_src (sep s) of None \<Rightarrow> [] | Some t \<Rightarrow> t)
                            @ commentWT u (nodeValue n)) s
         in (Inr (of_sibling (nextSibling (dom s1 k))), s1))
      else callMethod c u du m k None None s)"

section \<open>Templates\<close>

text \<open>\<open>Number.prototype.toString\<close> of a counter, and \<open>String.prototype.trim\<close>.\<close>

fun natToString :: "nat \<Rightarrow> string" where
  "natToString n =
     (if n < 10 then [''0123456789'' ! n]
      else natToString (n div 10) @ [''0123456789'' ! (n mod 10)])"

declare natToString.simps [simp del]

definition js_trim :: "string \<Rightarrow> string" where
  "js_trim t = rev (dropWhile is_space (rev (dropWhile is_space t)))"

text \<open>
  The \<open>wt\<close> of a parameter: absent, a string, or a value that is not a string (which
  \<open>Util.tokensToString\<close> turns into one).
\<close>

datatype wtval = WtUndef | WtStr string | WtOther nat

record tplParam =
  wt :: wtval
  p_html :: jsstr
  key_wt :: "string option"

text \<open>A template of data-mw; \<open>params\<close> lists the parameters in the order of \<open>Object.keys\<close>.\<close>

record template =
  target_wt :: string
  target_href :: "string option"
  params :: "(string \<times> tplParam) list"
  tpl_i :: "nat option"

datatype srcPart = StrPart string | TplPart template

text \<open>The variables \<open>argBuf\<close>, \<open>argIndex\<close> and \<open>numericIndex\<close> that \<open>pushArg\<close> closes over.\<close>

record argState =
  argBuf :: "string list"
  argIndexCounter :: nat
  numericIndex :: nat

text \<open>
  \<open>tpl.params[k]\<close>: the parameter of that key, or a member that \<open>tpl.params\<close> inherits,
  which is not \<open>undefined\<close> and has no \<open>wt\<close>, no \<open>html\<close> and no \<open>key\<close>.
\<close>

definition getParam :: "(string \<times> tplParam) list \<Rightarrow> string \<Rightarrow> tplParam option" where
  "getParam ps k =
     (case getMember ps k of
        Own p \<Rightarrow> Some p
      | Inherited \<Rightarrow> Some \<lparr>wt = WtUndef, p_html = SUndef, key_wt = None\<rparr>
      | Absent \<Rightarrow> None)"

definition countPositionalArgs :: "(string \<times> tplParam) list \<Rightarrow> paramInfo list \<Rightarrow> nat" where
  "countPositionalArgs ps paramInfos =
     length (filter (\<lambda>i. getParam ps (pi_k i) \<noteq> None \<and> \<not> pi_named i) paramInfos)"

text \<open>
  Lines 453 to 472: the wikitext of the value if there is one, else its HTML serialized;
  a \<open>wt\<close> that is not a string is logged (\<open>logValue\<close> is how the logger writes such a
  value) and converted.
\<close>

definition resolveValue ::
  "util \<Rightarrow> 'x modules \<Rightarrow> string \<Rightarrow> tplParam \<Rightarrow> 'x serializer \<Rightarrow> ('x, string) res" where
  "resolveValue u m k p s =
     (case wt p of
        WtStr v \<Rightarrow> (Inr v, s)
      | WtOther x \<Rightarrow>
          (Inr (tokensToString u x),
           s\<lparr>envlog := envlog s @ [(''error/html2wt/spec'',
                ''For param: '' @ k @ '', wt property should be a string but got: ''
                  @ logValue u x)]\<rparr>)
      | WtUndef \<Rightarrow> serializeHTML m TplArgCtx (p_html p) s)"

text \<open>Lines 474 to 508: the value is escaped and pushed, as a named or a positional one.\<close>

definition pushEscaped ::
  "util \<Rightarrow> tplArgOpts \<Rightarrow> string \<Rightarrow> paramInfo option \<Rightarrow> tplParam \<Rightarrow> string \<Rightarrow> argState \<Rightarrow> argState" where
  "pushEscaped u opts k paramInfo p v a =
     (let escapedValue = escapeTplArgWT u v opts;
          spc = (case (case paramInfo of None \<Rightarrow> None | Some i \<Rightarrow> pi_spc i) of
                   Some q \<Rightarrow> q
                 | None \<Rightarrow> if serializeAsNamed opts \<and> k = [] then ([], [], [], [])
                            else ([], '' '', '' '', []));
          paramName = (case key_wt p of Some w \<Rightarrow> w | None \<Rightarrow> k);
          asNamed = (case key_wt p of Some w \<Rightarrow> True | None \<Rightarrow> ev_serializeAsNamed escapedValue)
      in if asNamed then
           (case spc of (sp0, sp1, sp2, sp3) \<Rightarrow>
              a\<lparr>argBuf := argBuf a @ [sp0 @ paramName @ sp1 @ ''='' @ sp2
                                        @ js_trim (ev_v escapedValue) @ sp3]\<rparr>)
         else a\<lparr>numericIndex := numericIndex a + 1,
                argBuf := argBuf a @ [ev_v escapedValue]\<rparr>)"

text \<open>Lines 435 to 446: the options for the escape handler (\<open>argIndex++\<close> is done after).\<close>

definition argOpts ::
  "bool \<Rightarrow> nat \<Rightarrow> nat \<Rightarrow> string \<Rightarrow> paramInfo option \<Rightarrow> argState \<Rightarrow> tplArgOpts" where
  "argOpts isTpl numPositional n k paramInfo a =
     \<lparr>serializeAsNamed =
        ((case paramInfo of None \<Rightarrow> False | Some i \<Rightarrow> pi_named i)
         \<or> k \<noteq> natToString (numericIndex a)),
      isTemplate = isTpl,
      argPositionalIndex = numericIndex a,
      numPositionalArgs = numPositional,
      argIndex = argIndexCounter a,
      numArgs = n\<rparr>"

definition pushArg ::
  "util \<Rightarrow> 'x modules \<Rightarrow> bool \<Rightarrow> nat \<Rightarrow> nat \<Rightarrow> (string \<times> tplParam) list \<Rightarrow> string
     \<Rightarrow> paramInfo option \<Rightarrow> argState \<Rightarrow> 'x serializer \<Rightarrow> ('x, argState) res" where
  "pushArg u m isTpl numPositional n ps k paramInfo a s =
     (let opts = argOpts isTpl numPositional n k paramInfo a;
          a1 = a\<lparr>argIndexCounter := argIndexCounter a + 1\<rparr>
      in case getParam ps k of
           None \<Rightarrow> (Inl TypeError, s)
         | Some p \<Rightarrow>
             (case resolveValue u m k p s of
                (Inl e, s1) \<Rightarrow> (Inl e, s1)
              | (Inr v, s1) \<Rightarrow> (Inr (pushEscaped u opts k paramInfo p v a1), s1)))"

text \<open>Lines 514 to 519: the parameters that data-parsoid knows, in their old order.\<close>

fun pushOldParams ::
  "util \<Rightarrow> 'x modules \<Rightarrow> bool \<Rightarrow> nat \<Rightarrow> nat \<Rightarrow> (string \<times> tplParam) list \<Rightarrow> paramInfo list
     \<Rightarrow> argState \<Rightarrow> 'x serializer \<Rightarrow> ('x, argState) res" where
  "pushOldParams u m isTpl np n ps [] a s = (Inr a, s)"
| "pushOldParams u m isTpl np n ps (i # is) a s =
     (if getParam ps (pi_k i) \<noteq> None then
        (case pushArg u m isTpl np n ps (pi_k i) (Some i) a s of
           (Inl e, s1) \<Rightarrow> (Inl e, s1)
         | (Inr a1, s1) \<Rightarrow> pushOldParams u m isTpl np n ps is a1 s1)
      else pushOldParams u m isTpl np n ps is a s)"

text \<open>
  \<open>tpl.params[strippedK] = tpl.params[k]\<close>. (For the key \<open>__proto__\<close> the assignment sets
  the prototype of \<open>tpl.params\<close>; the reads that follow are of own keys or of the key just
  assigned, and they get the same parameters as from an own member.)
\<close>

definition setParam :: "string \<Rightarrow> tplParam \<Rightarrow> (string \<times> tplParam) list \<Rightarrow> (string \<times> tplParam) list" where
  "setParam k p ps =
     (if map_of ps k = None then ps @ [(k, p)]
      else map (\<lambda>kv. if fst kv = k then (k, p) else kv) ps)"

text \<open>Lines 521 to 531: then the new parameters, under their trimmed keys.\<close>

fun pushNewParams ::
  "util \<Rightarrow> 'x modules \<Rightarrow> bool \<Rightarrow> nat \<Rightarrow> nat \<Rightarrow> string list \<Rightarrow> (string \<times> tplParam) list
     \<Rightarrow> string list \<Rightarrow> argState \<Rightarrow> 'x serializer \<Rightarrow> ('x, argState) res" where
  "pushNewParams u m isTpl np n origKeys ps [] a s = (Inr a, s)"
| "pushNewParams u m isTpl np n origKeys ps (k # ks) a s =
     (let strippedK = js_trim k in
      if strippedK \<notin> set origKeys then
        (let ps1 = (if strippedK \<noteq> k
                    then (case map_of ps k of None \<Rightarrow> ps | Some p \<Rightarrow> setParam strippedK p ps)
                    else ps)
         in case pushArg u m isTpl np n ps1 strippedK None a s of
              (Inl e, s1) \<Rightarrow> (Inl e, s1)
            | (Inr a1, s1) \<Rightarrow> pushNewParams u m isTpl np n origKeys ps1 ks a1 s1)
      else pushNewParams u m isTpl np n origKeys ps ks a s)"

text \<open>One part of \<open>srcParts\<close>: a string is copied, a template is written out.\<close>

definition buildPart ::
  "util \<Rightarrow> 'x modules \<Rightarrow> paramInfo list list option \<Rightarrow> srcPart \<Rightarrow> string \<Rightarrow> 'x serializer
     \<Rightarrow> ('x, string) res" where
  "buildPart u m dpi part buf s =
     (case part of
        StrPart t \<Rightarrow> (Inr (buf @ t), s)
      | TplPart tpl \<Rightarrow>
          (let isTpl = (target_href tpl \<noteq> None);
               buf1 = buf @ ''{{'' @ target_wt tpl;
               keys = map fst (params tpl);
               paramInfos = (case (dpi, tpl_i tpl) of
                               (Some pis, Some i) \<Rightarrow> if i < length pis then pis ! i else []
                             | _ \<Rightarrow> []);
               origKeys = map pi_k paramInfos;
               n = length keys
           in if n = 0 then (Inr (buf1 @ ''}}''), s)
              else
                (let np = countPositionalArgs (params tpl) paramInfos;
                     a0 = \<lparr>argBuf = [], argIndexCounter = 1, numericIndex = 1\<rparr>
                 in case pushOldParams u m isTpl np n (params tpl) paramInfos a0 s of
                      (Inl e, s1) \<Rightarrow> (Inl e, s1)
                    | (Inr a1, s1) \<Rightarrow>
                        (case pushNewParams u m isTpl np n origKeys (params tpl) keys a1 s1 of
                           (Inl e, s2) \<Rightarrow> (Inl e, s2)
                         | (Inr a2, s2) \<Rightarrow>
                             (Inr (buf1 @ ''|'' @ joinStrings ''|'' (argBuf a2) @ ''}}''), s2)))))"

fun buildParts ::
  "util \<Rightarrow> 'x modules \<Rightarrow> paramInfo list list option \<Rightarrow> srcPart list \<Rightarrow> string \<Rightarrow> 'x serializer
     \<Rightarrow> ('x, string) res" where
  "buildParts u m dpi [] buf s = (Inr buf, s)"
| "buildParts u m dpi (part # parts) buf s =
     (case buildPart u m dpi part buf s of
        (Inl e, s1) \<Rightarrow> (Inl e, s1)
      | (Inr buf1, s1) \<Rightarrow> buildParts u m dpi parts buf1 s1)"

definition buildTemplateWT ::
  "util \<Rightarrow> 'x modules \<Rightarrow> nat \<Rightarrow> srcPart list \<Rightarrow> 'x serializer \<Rightarrow> ('x, string) res" where
  "buildTemplateWT u m nd srcParts s = buildParts u m (pi (dp (dom s nd))) srcParts [] s"

section \<open>Extensions\<close>

text \<open>
  The extension part of data-mw, and what the handler reads of the documents: elements
  found by id or by selector (\<open>querySelector\<close> throws on a selector it cannot parse), in
  the node's own document and in the edited document of the page, which may be unset.
\<close>

record extBody =
  body_html :: jsstr
  body_id :: jsstr
  body_extsrc :: jsstr

record dataMW =
  mw_name :: string
  mw_attrs :: "(string \<times> string) list option"
  mw_body :: "extBody option"

record elem =
  innerHTML :: string
  elemOuterHTML :: string

record editedDocument =
  ed_getElementById :: "jsstr \<Rightarrow> elem option"
  ed_querySelector :: "string \<Rightarrow> error + elem option"

record 'x documents =
  ownerGetElementById :: "'x serializer \<Rightarrow> nat \<Rightarrow> jsstr \<Rightarrow> elem option"
  ownerQuerySelector :: "'x serializer \<Rightarrow> nat \<Rightarrow> string \<Rightarrow> error + elem option"
  firstAnchorHref :: "'x serializer \<Rightarrow> nat \<Rightarrow> string option"
  editedDoc :: "'x serializer \<Rightarrow> editedDocument option"

fun isString :: "jsstr \<Rightarrow> bool" where
  "isString (SStr t) = True"
| "isString _ = False"

text \<open>A value in a string concatenation.\<close>

fun strOf :: "jsstr \<Rightarrow> string" where
  "strOf (SStr t) = t"
| "strOf SNull = ''null''"
| "strOf SUndef = ''undefined''"

text \<open>The data attributes of a token made with \<open>new pd.TagTk(name, attribs)\<close>: none.\<close>

definition emptyDp :: dataParsoid where
  "emptyDp = \<lparr>dsr = None, stx = None, fostered = False, misnested = False,
     autoInsertedStart = False, autoInsertedEnd = False, selfClose = False, noClose = False,
     srcTagName = None, sanitized_a = None, sanitized_sa = None, pi = None\<rparr>"

text \<open>Lines 549 to 561: the token of the extension tag, with \<open>about\<close> and \<open>typeof\<close> added.\<close>

definition extToken :: "node \<Rightarrow> dataMW \<Rightarrow> token" where
  "extToken n d =
     (let about = map_of (attributes n) ''about'';
          ty = map_of (attributes n) ''typeof''
      in \<lparr>tk_name = mw_name d,
          attribs = (case mw_attrs d of None \<Rightarrow> [] | Some kvs \<Rightarrow> kvs)
                    @ (case about of None \<Rightarrow> [] | Some v \<Rightarrow> if v \<noteq> [] then [(''about'', v)] else [])
                    @ (case ty of None \<Rightarrow> [] | Some v \<Rightarrow> if v \<noteq> [] then [(''typeof'', v)] else []),
          dataAttribs = emptyDp\<rparr>)"

text \<open>
  Lines 587 to 593: the element that \<open>body.id\<close> points to, in the node's own document,
  then in the edited document.
\<close>

definition lookupBodyElt :: "'x documents \<Rightarrow> nat \<Rightarrow> jsstr \<Rightarrow> 'x serializer \<Rightarrow> elem option" where
  "lookupBodyElt x nd i s =
     (case ownerGetElementById x s nd i of
        Some e \<Rightarrow> Some e
      | None \<Rightarrow>
          (case editedDoc x s of
             None \<Rightarrow> None
           | Some ed \<Rightarrow> ed_getElementById ed i))"

text \<open>
  Lines 598 to 613, the debugging text of the error message. The edited document is read
  without a check here.
\<close>

definition extraDebugInfo :: "'x documents \<Rightarrow> nat \<Rightarrow> 'x serializer \<Rightarrow> error + string" where
  "extraDebugInfo x nd s =
     (case firstAnchorHref x s nd of
        None \<Rightarrow> Inr []
      | Some href \<Rightarrow>
          if take 1 href = ''#'' then
            (case ownerQuerySelector x s nd href of
               Inl e \<Rightarrow> Inl e
             | Inr r1 \<Rightarrow>
                 (let d1 = (case r1 of
                              None \<Rightarrow> []
                            | Some e \<Rightarrow> '' [own doc: '' @ elemOuterHTML e @ '']'')
                  in case editedDoc x s of
                       None \<Rightarrow> Inl TypeError
                     | Some ed \<Rightarrow>
                         (case ed_querySelector ed href of
                            Inl e \<Rightarrow> Inl e
                          | Inr r2 \<Rightarrow>
                              (let d2 = d1 @ (case r2 of
                                                None \<Rightarrow> []
                                              | Some e \<Rightarrow> '' [main doc: '' @ elemOuterHTML e @ '']'')
                               in Inr (if d2 = [] then '' [reference '' @ href @ '' not found]''
                                       else d2)))))
          else Inr [])"

definition missingBodyError :: "string \<Rightarrow> jsstr \<Rightarrow> node \<Rightarrow> string \<Rightarrow> string \<times> string" where
  "missingBodyError name i n dbg =
     (''error/'' @ name,
      ''extension src id '' @ strOf i @ '' points to non-existent element for:'' @ outerHTML n
        @ ''. Dropping the extension. More debug info: '' @ dbg)"

definition unavailableError :: "node \<Rightarrow> string \<times> string" where
  "unavailableError n = (''error'', ''extension src unavailable for: '' @ outerHTML n)"

text \<open>Lines 625 to 634: the body's HTML, when it is not empty, is serialized.\<close>

definition bodyFromHtml ::
  "'x modules \<Rightarrow> string \<Rightarrow> string \<Rightarrow> 'x serializer \<Rightarrow> ('x, string option) res" where
  "bodyFromHtml m name htmlText s =
     (if htmlText \<noteq> [] then
        (case serializeHTML m (ExtBodyCtx name) (SStr htmlText) s of
           (Inl e, s1) \<Rightarrow> (Inl e, s1)
         | (Inr r, s1) \<Rightarrow> (Inr (Some r), s1))
      else (Inr (Some []), s))"

text \<open>
  Lines 577 to 643: the text between the tags; \<open>None\<close> when the call is dropped
  (\<open>srcParts = []\<close>).
\<close>

definition resolveExtBody ::
  "'x modules \<Rightarrow> 'x documents \<Rightarrow> nat \<Rightarrow> string \<Rightarrow> extBody \<Rightarrow> 'x serializer
     \<Rightarrow> ('x, string option) res" where
  "resolveExtBody m x nd name b s =
     (if isString (body_html b) \<or> isString (body_id b) then
        (if truthyStr (body_html b) then bodyFromHtml m name (strOf (body_html b)) s
         else
           (case lookupBodyElt x nd (body_id b) s of
              Some e \<Rightarrow> bodyFromHtml m name (innerHTML e) s
            | None \<Rightarrow>
                (case extraDebugInfo x nd s of
                   Inl e \<Rightarrow> (Inl e, s)
                 | Inr dbg \<Rightarrow>
                     (Inr None,
                      s\<lparr>envlog := envlog s @ [missingBodyError name (body_id b) (dom s nd) dbg]\<rparr>))))
      else if body_extsrc b \<noteq> SNull \<and> body_extsrc b \<noteq> SUndef
        then (Inr (Some (strOf (body_extsrc b))), s)
      else (Inr (Some []), s\<lparr>envlog := envlog s @ [unavailableError (dom s nd)]\<rparr>))"

definition defaultExtensionHandler ::
  "util \<Rightarrow> 'x modules \<Rightarrow> 'x documents \<Rightarrow> nat \<Rightarrow> dataMW \<Rightarrow> 'x serializer \<Rightarrow> ('x, string) res" where
  "defaultExtensionHandler u m x nd d s =
     (let extName = mw_name d in
      case serializeAttributes u m nd (extToken (dom s nd) d) s of
        (Inl e, s1) \<Rightarrow> (Inl e, s1)
      | (Inr attrStr, s1) \<Rightarrow>
          (let start = ''<'' @ extName @ (if attrStr \<noteq> [] then '' '' @ attrStr else [])
           in case mw_body d of
                None \<Rightarrow> (Inr (start @ '' />''), s1)
              | Some b \<Rightarrow>
                  (case resolveExtBody m x nd extName b s1 of
                     (Inl e, s2) \<Rightarrow> (Inl e, s2)
                   | (Inr None, s2) \<Rightarrow> (Inr [], s2)
                   | (Inr (Some body), s2) \<Rightarrow>
                       (Inr (start @ ''>'' @ body @ ''</'' @ extName @ ''>''), s2))))"

section \<open>Post-pass: nowikis next to quotes\<close>

abbreviation SQ :: char where "SQ \<equiv> CHR 0x27"

text \<open>
  The split expression of \<open>_stripUnnecessaryQuoteNowikis\<close>,
  \<open>/('''''|'''|''|\[\[|\]\]|\{\{|\}\}|<\w+(?:\s+[^>]*?|\s*?)\/?>|<\/\w+\s*>)/\<close>.
  \<open>openTagLen\<close> and \<open>closeTagLen\<close> take the string after \<open><\<close> and give the length of
  the match of the two tag alternatives at the head of the string, \<open><\<close> included. After
  the name an open tag goes on to the first \<open>>\<close> when whitespace follows the name, and
  otherwise ends at once with \<open>>\<close> or \<open>/>\<close>.
\<close>

definition openTagLen :: "string \<Rightarrow> nat option" where
  "openTagLen r =
     (let w = takeWhile is_word r; r1 = dropWhile is_word r
      in if w = [] then None
         else (case r1 of
                 [] \<Rightarrow> None
               | c # r2 \<Rightarrow>
                   if is_space c then
                     (if CHR ''>'' \<in> set r1
                      then Some (1 + length w + length (takeWhile (\<lambda>ch. ch \<noteq> CHR ''>'') r1) + 1)
                      else None)
                   else if c = CHR ''>'' then Some (1 + length w + 1)
                   else if c = CHR ''/'' \<and> take 1 r2 = ''>'' then Some (1 + length w + 2)
                   else None))"

definition closeTagLen :: "string \<Rightarrow> nat option" where
  "closeTagLen r =
     (case r of
        [] \<Rightarrow> None
      | c # r0 \<Rightarrow>
          if c = CHR ''/'' then
            (let w = takeWhile is_word r0;
                 r1 = dropWhile is_word r0;
                 sp = takeWhile is_space r1
             in if w \<noteq> [] \<and> take 1 (dropWhile is_space r1) = ''>''
                then Some (2 + length w + length sp + 1) else None)
          else None)"

text \<open>The length of the token at the head of a string, in the order of the alternatives.\<close>

definition tokenLen :: "string \<Rightarrow> nat option" where
  "tokenLen t =
     (if take 5 t = [SQ, SQ, SQ, SQ, SQ] then Some 5
      else if take 3 t = [SQ, SQ, SQ] then Some 3
      else if take 2 t = [SQ, SQ] then Some 2
      else if take 2 t = ''[['' \<or> take 2 t = '']]'' \<or> take 2 t = ''{{'' \<or> take 2 t = ''}}''
        then Some 2
      else (case t of
              [] \<Rightarrow> None
            | c # r \<Rightarrow>
                if c = CHR ''<'' then
                  (case openTagLen r of Some n \<Rightarrow> Some n | None \<Rightarrow> closeTagLen r)
                else None))"

text \<open>
  \<open>line.split(...)\<close> with the capturing group: the texts between the tokens stand at the
  even places of the array and the tokens at the odd ones. \<open>acc\<close> holds, reversed, the
  text since the last token.
\<close>

fun splitAcc :: "string \<Rightarrow> string \<Rightarrow> string list" where
  "splitAcc acc [] = [rev acc]"
| "splitAcc acc (c # r) =
     (case tokenLen (c # r) of
        Some n \<Rightarrow> rev acc # take n (c # r) # splitAcc [] (drop (n - 1) r)
      | None \<Rightarrow> splitAcc (c # acc) r)"

definition splitQuoteLine :: "string \<Rightarrow> string list" where
  "splitQuoteLine line = splitAcc [] line"

text \<open>\<open>/<nowiki\s*\/>/.test(line)\<close>.\<close>

definition nowikiAt :: "string \<Rightarrow> bool" where
  "nowikiAt t = (take 7 t = ''<nowiki'' \<and> take 2 (dropWhile is_space (drop 7 t)) = ''/>'')"

fun hasNowiki :: "string \<Rightarrow> bool" where
  "hasNowiki [] = False"
| "hasNowiki (c # r) = (nowikiAt (c # r) \<or> hasNowiki r)"

definition endsWith :: "string \<Rightarrow> string \<Rightarrow> bool" where
  "endsWith suffix t = (length suffix \<le> length t \<and> drop (length t - length suffix) t = suffix)"

text \<open>
  Lines 1098 to 1100: for an HTML tag the name (with the slash of a closing tag), for the
  other tokens the token; a slash is appended when the token ends with \<open>/>\<close>.
\<close>

definition tagOf :: "string \<Rightarrow> string" where
  "tagOf tok =
     (let name = (case tok of
                    [] \<Rightarrow> tok
                  | c # r \<Rightarrow>
                      if c = CHR ''<'' then
                        (let sl = (if take 1 r = ''/'' then ''/'' else []);
                             w = takeWhile is_word (drop (length sl) r)
                         in if w \<noteq> [] then sl @ w else tok)
                      else tok)
      in if endsWith ''/>'' tok then name @ ''/'' else name)"

text \<open>The variables of the loop; the top of the stack is the head of the list.\<close>

record quoteState =
  stack :: "string list"
  quotesOnStack :: int
  inNowikiSection :: bool
  inRefSection :: bool
  nowikiIndex :: "nat option"

definition initQuoteState :: quoteState where
  "initQuoteState = \<lparr>stack = [], quotesOnStack = 0, inNowikiSection = False,
     inRefSection = False, nowikiIndex = None\<rparr>"

text \<open>
  The condition of lines 1129 to 1142 under which the \<open><nowiki/>\<close> at place \<open>j\<close> can be
  stripped. \<open>p[j - 2]\<close> is undefined for \<open>j = 1\<close>, and the test then reads the string
  \<open>undefined\<close>.
\<close>

definition strippable :: "string list \<Rightarrow> nat \<Rightarrow> quoteState \<Rightarrow> bool" where
  "strippable p j st =
     (let n = length p;
          txt1 = p ! (j - 1);
          tok2 = (if 2 \<le> j then p ! (j - 2) else ''undefined'')
      in endsWith [SQ] txt1
         \<and> \<not> (txt1 = [SQ] \<and> endsWith [SQ, SQ] tok2)
         \<and> (quotesOnStack st = 0
            \<or> (quotesOnStack st = 1
               \<and> j + 2 < n
               \<and> p ! (j + 1) = []
               \<and> take 1 (p ! (j + 2)) = [SQ]
               \<and> (case stack st of [] \<Rightarrow> False | tp # _ \<Rightarrow> p ! (j + 2) = tp))))"

text \<open>
  One round of the loop, for the token at the odd place \<open>j\<close>; \<open>None\<close> is the early
  \<open>return line\<close> of a pairing that failed. \<open>stack.pop()\<close> of an empty stack gives
  undefined, which is never \<open>[[\<close> or \<open>{{\<close> and reads \<open>undefined\<close> in \<open>'/' + opentag\<close>.
\<close>

definition quoteStep :: "string list \<Rightarrow> nat \<Rightarrow> quoteState \<Rightarrow> quoteState option" where
  "quoteStep p j st =
     (let tok = p ! j;
          tg = tagOf tok;
          selfClosing = endsWith ''/>'' tok
      in if tg = ''ref'' then Some (st\<lparr>inRefSection := True\<rparr>)
         else if inRefSection st then
           Some (if tg = ''/ref'' then st\<lparr>inRefSection := False\<rparr> else st)
         else if tg = ''nowiki'' then Some (st\<lparr>inNowikiSection := True\<rparr>)
         else if inNowikiSection st then
           Some (if tg = ''/nowiki'' then st\<lparr>inNowikiSection := False\<rparr> else st)
         else if tg = '']]'' then
           (case stack st of
              [] \<Rightarrow> None
            | tp # below \<Rightarrow> if tp \<noteq> ''[['' then None else Some (st\<lparr>stack := below\<rparr>))
         else if tg = ''}}'' then
           (case stack st of
              [] \<Rightarrow> None
            | tp # below \<Rightarrow> if tp \<noteq> ''{{'' then None else Some (st\<lparr>stack := below\<rparr>))
         else if take 1 tg = ''/'' then
           (let opentag = (case stack st of [] \<Rightarrow> ''undefined'' | tp # _ \<Rightarrow> tp)
            in if tg \<noteq> ''/'' @ opentag then None else Some (st\<lparr>stack := tl (stack st)\<rparr>))
         else if tg = ''nowiki/'' then
           Some (if strippable p j st then st\<lparr>nowikiIndex := Some j\<rparr> else st)
         else if selfClosing \<or> tg = ''br'' then Some st
         else if take 1 tg = [SQ] \<and> (case stack st of [] \<Rightarrow> False | tp # _ \<Rightarrow> tp = tg) then
           Some (st\<lparr>stack := tl (stack st), quotesOnStack := quotesOnStack st - 1\<rparr>)
         else
           Some (st\<lparr>stack := tg # stack st,
                   quotesOnStack := (if take 1 tg = [SQ] then quotesOnStack st + 1
                                     else quotesOnStack st)\<rparr>))"

text \<open>\<open>for (var j = ...; j < n; j += 2)\<close>, from any place \<open>j\<close> and up to any bound \<open>n\<close>.\<close>

function quoteLoop :: "string list \<Rightarrow> nat \<Rightarrow> nat \<Rightarrow> quoteState \<Rightarrow> quoteState option" where
  "quoteLoop p n j st =
     (if j < n then
        (case quoteStep p j st of
           None \<Rightarrow> None
         | Some st1 \<Rightarrow> quoteLoop p n (j + 2) st1)
      else Some st)"
  by pat_completeness auto
termination
  by (relation "measure (\<lambda>(p, n, j, st). n - j)") auto

declare quoteLoop.simps [simp del]

text \<open>The function that is mapped over the lines.\<close>

definition stripQuoteNowikiLine :: "string \<Rightarrow> string" where
  "stripQuoteNowikiLine line =
     (if \<not> (hasNowiki line \<and> SQ \<in> set line) then line
      else
        (let p = splitQuoteLine line
         in case quoteLoop p (length p) 1 initQuoteState of
              None \<Rightarrow> line
            | Some st \<Rightarrow>
                if stack st \<noteq> [] then line
                else (case nowikiIndex st of
                        Some j \<Rightarrow> concat (p[j := []])
                      | None \<Rightarrow> line)))"

text \<open>
  \<open>out.split(/\n|$/)\<close> and \<open>out.split('\n')\<close> cut at the newlines (the \<open>$\<close> of the first can
  match at the end of the buffer only, where \<open>split\<close> does not try it; for the empty
  buffer the first gives no line and the second an empty one, and both are joined to the
  empty buffer again).
\<close>

fun splitLinesAcc :: "string \<Rightarrow> string \<Rightarrow> string list" where
  "splitLinesAcc acc [] = [rev acc]"
| "splitLinesAcc acc (c # r) =
     (if c = NL then rev acc # splitLinesAcc [] r else splitLinesAcc (c # acc) r)"

definition splitLines :: "string \<Rightarrow> string list" where
  "splitLines t = splitLinesAcc [] t"

definition stripUnnecessaryQuoteNowikis :: "string \<Rightarrow> string" where
  "stripUnnecessaryQuoteNowikis buf =
     joinStrings [NL] (map stripQuoteNowikiLine (splitLines buf))"

text \<open>
  The \<open><nowiki/>\<close> at the odd place \<open>j\<close> is a candidate for stripping when the loop gets
  to \<open>j\<close> without a failed pairing, outside of \<open><ref>\<close> and \<open><nowiki>\<close> sections, and the
  condition of lines 1129 to 1142 holds there.
\<close>

definition stripCandidate :: "string list \<Rightarrow> nat \<Rightarrow> bool" where
  "stripCandidate p j =
     (odd j \<and> j < length p
      \<and> (case quoteLoop p j 1 initQuoteState of
           None \<Rightarrow> False
         | Some st \<Rightarrow> tagOf (p ! j) = ''nowiki/'' \<and> \<not> inRefSection st
                      \<and> \<not> inNowikiSection st \<and> strippable p j st))"

section \<open>Post-pass: trailing self-closing nowikis\<close>

text \<open>
  \<open>piece.replace(/^([^=]*?)(?:<nowiki\s*\/>\s*)+$/, '$1')\<close>. \<open>nowikiUnit\<close> is one
  \<open><nowiki\s*\/>\s*\<close> at the head of a string and gives what follows it; \<open>isNowikiRun\<close>
  says that a string is one or more of them, up to its end.
\<close>

definition nowikiUnit :: "string \<Rightarrow> string option" where
  "nowikiUnit t =
     (if take 7 t = ''<nowiki'' then
        (let r = dropWhile is_space (drop 7 t)
         in if take 2 r = ''/>'' then Some (dropWhile is_space (drop 2 r)) else None)
      else None)"

function isNowikiRun :: "string \<Rightarrow> bool" where
  "isNowikiRun t = (case nowikiUnit t of None \<Rightarrow> False | Some r \<Rightarrow> r = [] \<or> isNowikiRun r)"
  by pat_completeness auto
termination
proof (relation "measure length")
  show "wf (measure length)" by simp
next
  fix t r :: string
  assume "nowikiUnit t = Some r"
  then have a: "take 7 t = ''<nowiki''"
    and r: "r = dropWhile is_space (drop 2 (dropWhile is_space (drop 7 t)))"
    by (simp_all add: nowikiUnit_def Let_def split: if_splits)
  from a have "t \<noteq> []" by auto
  moreover have "length r \<le> length t - 7"
    unfolding r
    using length_dropWhile_le [of is_space "drop 2 (dropWhile is_space (drop 7 t))"]
      length_dropWhile_le [of is_space "drop 7 t"]
    by simp
  ultimately have "length r < length t"
    by (cases t) simp_all
  then show "(r, t) \<in> measure length" by simp
qed

declare isNowikiRun.simps [simp del]

text \<open>
  The lazy prefix \<open>([^=]*?)\<close>: the shortest prefix without an equals sign after which the
  rest of the piece is a run of self-closing nowikis; \<open>None\<close> when the piece does not match.
\<close>

fun trailingPrefix :: "string \<Rightarrow> string option" where
  "trailingPrefix [] = None"
| "trailingPrefix (c # r) =
     (if isNowikiRun (c # r) then Some []
      else if c = CHR ''='' then None
      else map_option ((#) c) (trailingPrefix r))"

definition stripTrailingNowikiLine :: "string \<Rightarrow> string" where
  "stripTrailingNowikiLine piece =
     (case trailingPrefix piece of None \<Rightarrow> piece | Some pre \<Rightarrow> pre)"

text \<open>Lines 1233 to 1235 of \<open>serializeDOM\<close>.\<close>

definition stripTrailingNowikis :: "string \<Rightarrow> string" where
  "stripTrailingNowikis buf =
     joinStrings [NL] (map stripTrailingNowikiLine (splitLines buf))"

section \<open>Post-pass: nowikis at the start of a line\<close>

text \<open>
  What \<open>_stripUnnecessaryIndentPreNowikis\<close> reads of the environment: two expressions of
  the wiki configuration, the scrub flag, and two sets of tag names of the wikitext
  constants. Of \<open>solTransparentWikitextNoWsRegexp\<close> only the source is used, inside an
  expression with the flags \<open>i\<close> and \<open>m\<close>, and the code takes it to have one capturing
  group (the pieces of the split come in fours). The parameter gives, for a string that
  starts a line, the matches of that source at the head of the string in the order in
  which backtracking tries them: the length of each match and what its group captured
  (nothing when the group took no part in the match). \<open>solTransparentWikitextRegexp\<close> is
  used through \<open>test\<close> only, and is the set of the strings that it accepts.
\<close>

record environment =
  solTransparentWikitextNoWsRegexp :: "string \<Rightarrow> (nat \<times> string option) list"
  solTransparentWikitextRegexp :: "string \<Rightarrow> bool"
  scrubWikitext :: bool
  HTML5Tags :: "string \<Rightarrow> bool"
  BlockTags :: "string \<Rightarrow> bool"

abbreviation CR :: char where "CR \<equiv> CHR 0x0D"

text \<open>The line terminators, after which \<open>^\<close> matches under the flag \<open>m\<close> and which \<open>.\<close> does not match.\<close>

definition isLineTerminator :: "char \<Rightarrow> bool" where
  "isLineTerminator c = (c = NL \<or> c = CR)"

text \<open>
  \<open>(<nowiki>\s+</nowiki>)\<close> under the flag \<open>i\<close>, at the head of a string: the length of
  the match.
\<close>

definition nowikiPairLen :: "string \<Rightarrow> nat option" where
  "nowikiPairLen t =
     (if toLowerCase (take 8 t) = ''<nowiki>'' then
        (let ws = takeWhile is_space (drop 8 t);
             r = dropWhile is_space (drop 8 t)
         in if ws \<noteq> [] \<and> toLowerCase (take 9 r) = ''</nowiki>''
            then Some (8 + length ws + 9) else None)
      else None)"

text \<open>\<open>([^\n]*(?:\n|$))\<close>: the rest of the line, with its newline if it has one.\<close>

definition restOfLineLen :: "string \<Rightarrow> nat" where
  "restOfLineLen t =
     (let l = length (takeWhile (\<lambda>c. c \<noteq> NL) t) in if l < length t then l + 1 else l)"

text \<open>
  One match of \<open>noWikiRegexp\<close> at the head of a string that starts a line: the first
  match of the configured source after which the nowiki pair follows. The result is the
  three captures and the length of the whole match.
\<close>

definition indentPreMatch ::
  "environment \<Rightarrow> string \<Rightarrow> (string option \<times> string \<times> string \<times> nat) option" where
  "indentPreMatch env t =
     (case find (\<lambda>lc. fst lc \<le> length t \<and> nowikiPairLen (drop (fst lc) t) \<noteq> None)
             (solTransparentWikitextNoWsRegexp env t) of
        None \<Rightarrow> None
      | Some lc \<Rightarrow>
          (case nowikiPairLen (drop (fst lc) t) of
             None \<Rightarrow> None
           | Some n \<Rightarrow>
               (let k = restOfLineLen (drop (fst lc + n) t)
                in Some (snd lc, take n (drop (fst lc) t), take k (drop (fst lc + n) t),
                         fst lc + n + k))))"

text \<open>
  \<open>this.state.out.split(noWikiRegexp)\<close>: a match is tried at every place that starts a
  line (\<open>sol\<close>), and after a match the search goes on behind it. Each match gives four
  pieces: the text before it and its three captures. \<open>acc\<close> holds, reversed, the text
  since the last match. A capture that is undefined reads \<open>undefined\<close> when it is appended
  to the output.
\<close>

fun splitIndentPre :: "environment \<Rightarrow> bool \<Rightarrow> string \<Rightarrow> string \<Rightarrow> string list" where
  "splitIndentPre env sol acc [] = [rev acc]"
| "splitIndentPre env sol acc (c # r) =
     (case (if sol then indentPreMatch env (c # r) else None) of
        Some (c1, nowiki, rest1, len) \<Rightarrow>
          rev acc # (case c1 of None \<Rightarrow> ''undefined'' | Some x \<Rightarrow> x) # nowiki # rest1
            # splitIndentPre env (isLineTerminator ((c # r) ! (len - 1))) [] (drop (len - 1) r)
      | None \<Rightarrow> splitIndentPre env (isLineTerminator c) (c # acc) r)"

text \<open>\<open>rest.match(/<[^!][^<>]*>/g) || []\<close>.\<close>

definition htmlTagLen :: "string \<Rightarrow> nat option" where
  "htmlTagLen t =
     (case t of
        c # d # r \<Rightarrow>
          if c = CHR ''<'' \<and> d \<noteq> CHR ''!'' then
            (let b = takeWhile (\<lambda>x. x \<noteq> CHR ''<'' \<and> x \<noteq> CHR ''>'') r
             in if take 1 (drop (length b) r) = ''>'' then Some (2 + length b + 1) else None)
          else None
      | _ \<Rightarrow> None)"

fun htmlTags :: "string \<Rightarrow> string list" where
  "htmlTags [] = []"
| "htmlTags (c # r) =
     (case htmlTagLen (c # r) of
        Some n \<Rightarrow> take n (c # r) # htmlTags (drop (n - 1) r)
      | None \<Rightarrow> htmlTags r)"

text \<open>
  \<open>htmlTags[j].replace(/<\/?|\s.*|>/g, '')\<close>: a \<open><\<close> goes with the slash after it, a
  whitespace goes with all that follows it up to a line terminator, and a \<open>>\<close> goes.
\<close>

function stripTagSyntax :: "string \<Rightarrow> string" where
  "stripTagSyntax [] = []"
| "stripTagSyntax (c # r) =
     (if c = CHR ''<'' then stripTagSyntax (if take 1 r = ''/'' then drop 1 r else r)
      else if is_space c then stripTagSyntax (dropWhile (\<lambda>x. \<not> isLineTerminator x) r)
      else if c = CHR ''>'' then stripTagSyntax r
      else c # stripTagSyntax r)"
  by pat_completeness auto
termination
  by (relation "measure length") (auto simp: le_imp_less_Suc length_dropWhile_le)

text \<open>
  \<open>String.prototype.toUpperCase\<close> on code units below 256: a small letter (a to z, and
  the Latin-1 small letters) is 32 above its capital, and the capital of the sharp s is
  \<open>SS\<close>. The capitals of the micro sign and of the y with diaeresis lie above 255; the
  two are left as they are.
\<close>

definition toUpperChar :: "char \<Rightarrow> string" where
  "toUpperChar c =
     (let n = (of_char c :: nat)
      in if (97 \<le> n \<and> n \<le> 122) \<or> (224 \<le> n \<and> n \<le> 246) \<or> (248 \<le> n \<and> n \<le> 254)
         then [case c of Char b0 b1 b2 b3 b4 b5 b6 b7 \<Rightarrow> Char b0 b1 b2 b3 b4 False b6 b7]
         else if n = 223 then ''SS''
         else [c])"

definition toUpperCase :: "string \<Rightarrow> string" where
  "toUpperCase t = concat (map toUpperChar t)"

text \<open>Lines 1033 to 1048: the loop over the tags of the rest of the line.\<close>

fun tagsRequire :: "environment \<Rightarrow> string list \<Rightarrow> bool \<Rightarrow> bool" where
  "tagsRequire env [] reqd = reqd"
| "tagsRequire env (t # ts) reqd =
     (let tagName = toUpperCase (stripTagSyntax t)
      in if \<not> HTML5Tags env tagName then True
         else if BlockTags env tagName then tagsRequire env ts False
         else tagsRequire env ts reqd)"

text \<open>Lines 1027 to 1049: is the nowiki at the start of the line required?\<close>

definition nowikiRequired :: "environment \<Rightarrow> string \<Rightarrow> bool" where
  "nowikiRequired env rest1 =
     (let reqd = \<not> solTransparentWikitextRegexp env rest1
      in if reqd then tagsRequire env (htmlTags rest1) reqd else reqd)"

text \<open>
  \<open>nowiki.replace(/^<nowiki>(\s+)<\/nowiki>/, ...)\<close>, which has no flag \<open>i\<close>: the
  whitespace between the tags and what follows the closing tag, when the string starts
  with the pair in small letters.
\<close>

definition unwrapNowiki :: "string \<Rightarrow> (string \<times> string) option" where
  "unwrapNowiki t =
     (if take 8 t = ''<nowiki>'' then
        (let ws = takeWhile is_space (drop 8 t);
             r = dropWhile is_space (drop 8 t)
         in if ws \<noteq> [] \<and> take 9 r = ''</nowiki>'' then Some (ws, drop 9 r) else None)
      else None)"

text \<open>Lines 1051 to 1056: what is put in place of the nowiki and of the rest of the line.\<close>

definition rewriteIndentPre :: "environment \<Rightarrow> string \<Rightarrow> string \<Rightarrow> string" where
  "rewriteIndentPre env nowiki rest1 =
     (if \<not> nowikiRequired env rest1 then
        (case unwrapNowiki nowiki of None \<Rightarrow> nowiki | Some (ws, r) \<Rightarrow> ws @ r) @ rest1
      else if scrubWikitext env then
        (case unwrapNowiki nowiki of None \<Rightarrow> nowiki | Some (ws, r) \<Rightarrow> r)
          @ dropWhile is_space rest1
      else nowiki @ rest1)"

text \<open>
  The loop of lines 1022 to 1058 over the pieces after the first, four at a time (the
  split gives one piece and four more for each match).
\<close>

fun indentPreLoop :: "environment \<Rightarrow> string list \<Rightarrow> string \<Rightarrow> string" where
  "indentPreLoop env (c1 # nowiki # rest1 # between # others) outp =
     indentPreLoop env others (outp @ c1 @ rewriteIndentPre env nowiki rest1 @ between)"
| "indentPreLoop env pieces outp = outp"

definition stripUnnecessaryIndentPreNowikis :: "environment \<Rightarrow> string \<Rightarrow> string" where
  "stripUnnecessaryIndentPreNowikis env buf =
     (case splitIndentPre env True [] buf of
        [] \<Rightarrow> buf
      | p0 # pieces \<Rightarrow> indentPreLoop env pieces p0)"

section \<open>The post-pass of serializeDOM\<close>

text \<open>
  Lines 1210 to 1238 of \<open>serializeDOM\<close>: the three rewrites of the output buffer, each
  under its flag.
\<close>

definition postPass :: "environment \<Rightarrow> 'x serializer \<Rightarrow> 'x serializer" where
  "postPass env s =
     (let s1 = (if hasIndentPreNowikis s
                then s\<lparr>out := stripUnnecessaryIndentPreNowikis env (out s)\<rparr> else s);
          s2 = (if hasQuoteNowikis s1
                then s1\<lparr>out := stripUnnecessaryQuoteNowikis (out s1)\<rparr> else s1)
      in if hasSelfClosingNowikis s2 \<or> selserMode s2
         then s2\<lparr>out := stripTrailingNowikis (out s2)\<rparr> else s2)"

section \<open>Sample objects for concrete instances\<close>

text \<open>
  A small page: source \<open>''foo''\<close> (in italics), and a document whose node 1 is an
  unmodified \<open>I\<close> element with \<open>dsr = [0, 7, 2, 2]\<close> under the body (node 0). The sample
  collaborators append chunks to \<open>out\<close> and cut the source held in \<open>rest\<close>.
\<close>

definition sampleDp :: dataParsoid where
  "sampleDp = \<lparr>dsr = Some [Num 0, Num 7, Num 2, Num 2], stx = None, fostered = False,
     misnested = False, autoInsertedStart = False, autoInsertedEnd = False,
     selfClose = False, noClose = False, srcTagName = None,
     sanitized_a = None, sanitized_sa = None, pi = None\<rparr>"

definition sampleNode :: node where
  "sampleNode = \<lparr>nodeType = 1, nodeName = ''I'', nodeValue = [], attributes = [],
     outerHTML = ''<i>foo</i>'', dp = sampleDp, dataMwAttribs = None,
     parentNode = Some 0, previousSibling = None, nextSibling = None, childNodes = [3]\<rparr>"

definition sampleBody :: node where
  "sampleBody = \<lparr>nodeType = 1, nodeName = ''BODY'', nodeValue = [], attributes = [],
     outerHTML = ''<body><i>foo</i></body>'', dp = sampleDp\<lparr>dsr := Some [Num 0, Num 7, Num 0, Num 0]\<rparr>,
     dataMwAttribs = None,
     parentNode = Some 9, previousSibling = None, nextSibling = None, childNodes = [1]\<rparr>"

definition sampleText :: node where
  "sampleText = \<lparr>nodeType = 3, nodeName = ''#text'', nodeValue = ''foo'' @ [NL],
     attributes = [], outerHTML = [], dp = sampleDp\<lparr>dsr := None\<rparr>, dataMwAttribs = None,
     parentNode = Some 1, previousSibling = None, nextSibling = None, childNodes = []\<rparr>"

definition sampleDom :: "nat \<Rightarrow> node" where
  "sampleDom k = (if k = 0 then sampleBody else if k = 3 then sampleText else sampleNode)"

definition sampleState :: "string serializer" where
  "sampleState = \<lparr>selserMode = True, inModifiedContent = False, currNodeUnmodified = False,
     prevNodeUnmodified = False, onSOL = True, inIndentPre = False, inHTMLPre = False,
     inNoWiki = False, escapeText = False,
     sep = \<lparr>sep_src = None,
            constraintInfo = \<lparr>ci_onSOL = True, sepType = ''sibling'', nodeA = None, nodeB = None\<rparr>,
            lastSourceNode = None\<rparr>,
     out = [], hasIndentPreNowikis = False, hasQuoteNowikis = False,
     hasSelfClosingNowikis = False, dom = sampleDom, envlog = [],
     rest = [CHR 0x27, CHR 0x27, CHR ''f'', CHR ''o'', CHR ''o'', CHR 0x27, CHR 0x27]\<rparr>"

definition chunkText :: "chunk \<Rightarrow> string" where
  "chunkText ch = (case ch of Plain t \<Rightarrow> t | Constrained ct \<Rightarrow> ct_text ct)"

definition sampleCollab :: "string collab" where
  "sampleCollab = \<lparr>
     emitChunk = (\<lambda>ch nd s. s\<lparr>out := out s @ chunkText ch,
                     envlog := envlog s @ [(''emitChunk'',
                       if escapeText s then ''escapeText'' else ''plain'')]\<rparr>),
     getOrigSrc = (\<lambda>a b s. case (a, b) of
                     (Num i, Num j) \<Rightarrow> take (nat (j - i)) (drop (nat i) (rest s))
                   | _ \<Rightarrow> []),
     slcDisable = (\<lambda>s. s), slcPop = (\<lambda>s. s),
     setSep = (\<lambda>t s. s\<lparr>sep := (sep s)\<lparr>sep_src := Some t\<rparr>\<rparr>),
     updateSep = (\<lambda>k s. s\<lparr>sep := (sep s)\<lparr>lastSourceNode := Some k\<rparr>\<rparr>),
     updateModificationFlags = (\<lambda>k s. s\<lparr>prevNodeUnmodified := currNodeUnmodified s\<rparr>),
     origSrcValidInEditedContext = (\<lambda>s k. True),
     isValidDSR = (\<lambda>d. case d of
                     Num i # Num j # _ \<Rightarrow> 0 \<le> i \<and> 0 \<le> j
                   | _ \<Rightarrow> False),
     hasValidTagWidths = (\<lambda>d. case d of
                     [Num i, Num j, Num v, Num w] \<Rightarrow> 0 \<le> v \<and> 0 \<le> w \<and> v + w \<le> j - i
                   | _ \<Rightarrow> False),
     hasDiffMarkers = (\<lambda>s k. False),
     hasInsertedDiffMark = (\<lambda>s k. False),
     onlySubtreeChanged = (\<lambda>s k. False),
     isZeroWidthWikitextElt = (\<lambda>s k. False),
     isFirstEncapsulationWrapperNode = (\<lambda>s k. False),
     skipOverEncapsulatedContent = (\<lambda>s k. nextSibling (dom s k)),
     previousNonSepSibling = (\<lambda>s k. previousSibling (dom s k)),
     nextNonSepSibling = (\<lambda>s k. nextSibling (dom s k)),
     fromSelSer = (\<lambda>src k s. [\<lparr>ct_text = src, ct_node = Some k\<rparr>])\<rparr>"

definition sampleUtil :: util where
  "sampleUtil = \<lparr>
     escapeEntities = (\<lambda>t. t),
     isVoidElement = (\<lambda>nm. nm \<in> set [''br'', ''hr'', ''img'', ''meta'', ''link'', ''wbr'']),
     escapeNowikiTags = (\<lambda>t. t),
     lookupKV = (\<lambda>kvs k. k \<in> set (map fst kvs)),
     getAttributeShadowInfo = (\<lambda>tok k.
        \<lparr>si_value = (case map_of (attribs tok) k of None \<Rightarrow> [] | Some v \<Rightarrow> v),
         modified = False, fromsrc = False\<rparr>),
     commentWT = (\<lambda>t. ''<!--'' @ t @ ''-->''),
     parentTableTags = (\<lambda>nm. nm \<in> set [''TABLE'', ''TBODY'', ''TR'']),
     childTableTags = (\<lambda>nm. nm \<in> set [''TBODY'', ''TR'', ''TD'', ''TH'', ''CAPTION'']),
     escapeTplArgWT = (\<lambda>v opts.
        \<lparr>ev_serializeAsNamed = (serializeAsNamed opts \<or> CHR ''='' \<in> set v), ev_v = v\<rparr>),
     tokensToString = (\<lambda>x. []),
     logValue = (\<lambda>x. ''[object Object]'')\<rparr>"

definition sampleDomutil :: "string domutil" where
  "sampleDomutil = \<lparr>
     allChildrenAreText = (\<lambda>s p. case p of
          None \<Rightarrow> False
        | Some q \<Rightarrow> list_all (\<lambda>j. nodeType (dom s j) = 3) (childNodes (dom s q))),
     isElt = (\<lambda>s k. nodeType (dom s k) = 1),
     isNewElt = (\<lambda>s k. dsr (dp (dom s k)) = None),
     atTheTop = (\<lambda>s k. parentNode (dom s k) = Some 0),
     isDocumentFragment = (\<lambda>s p. False),
     isList = (\<lambda>s p. case p of
          None \<Rightarrow> False
        | Some q \<Rightarrow> nodeName (dom s q) \<in> set [''UL'', ''OL'', ''DL'']),
     isListItem = (\<lambda>s k. nodeName (dom s k) \<in> set [''LI'', ''DT'', ''DD'']),
     isMarkerMeta = (\<lambda>s k ty. False),
     isBody = (\<lambda>s p. p = Some 0),
     mkTagTk = (\<lambda>s k. \<lparr>tk_name = toLowerCase (nodeName (dom s k)),
                         attribs = attributes (dom s k), dataAttribs = dp (dom s k)\<rparr>),
     mkEndTagTk = (\<lambda>s k. \<lparr>tk_name = toLowerCase (nodeName (dom s k)),
                            attribs = attributes (dom s k), dataAttribs = dp (dom s k)\<rparr>)\<rparr>"

definition sampleHandler :: "string handler" where
  "sampleHandler = \<lparr>handle = Some (\<lambda>k s w. (Inr NoNode, s))\<rparr>"

definition sampleModules :: "string modules" where
  "sampleModules = \<lparr>
     serializeHTML = (\<lambda>ctx h s. (Inr (case h of SStr t \<Rightarrow> t | _ \<Rightarrow> []), s)),
     handleSeparatorText = (\<lambda>k s. (False, s)),
     updateSeparatorConstraints = (\<lambda>a ha b hb s. s),
     getEncapsulatedContentHandler = (\<lambda>s k. None),
     tagHandlers = (\<lambda>key. if key = ''i'' then Some sampleHandler else None),
     htmlElementHandler = sampleHandler\<rparr>"

text \<open>
  A page whose source is \<open><pre>foo</pre>\<close>; node 1 is the PRE element in HTML syntax,
  with \<open>dsr = [0, 14, 5, 6]\<close>.
\<close>

definition preNode :: node where
  "preNode = sampleNode\<lparr>nodeName := ''PRE'', outerHTML := ''<pre>foo</pre>'',
     dp := sampleDp\<lparr>dsr := Some [Num 0, Num 14, Num 5, Num 6], stx := Some ''html''\<rparr>\<rparr>"

definition preState :: "string serializer" where
  "preState = sampleState\<lparr>dom := (\<lambda>k. if k = 1 then preNode else sampleDom k),
     rest := ''<pre>foo</pre>''\<rparr>"

text \<open>
  A template \<open>echo\<close> with the parameters \<open>1\<close> and \<open>x\<close>, of which data-parsoid knows
  the first only.
\<close>

definition echoParams :: "(string \<times> tplParam) list" where
  "echoParams = [(''1'', \<lparr>wt = WtStr ''a'', p_html = SUndef, key_wt = None\<rparr>),
                 (''x'', \<lparr>wt = WtStr ''b'', p_html = SUndef, key_wt = None\<rparr>)]"

definition spacedParams :: "(string \<times> tplParam) list" where
  "spacedParams = [(''1'', \<lparr>wt = WtStr ''a'', p_html = SUndef, key_wt = None\<rparr>),
                   (''x'', \<lparr>wt = WtStr ''  b  '', p_html = SUndef, key_wt = None\<rparr>)]"

definition echoTemplate :: template where
  "echoTemplate = \<lparr>target_wt = ''echo'', target_href = Some ''./Template:Echo'',
     params = echoParams, tpl_i = Some 0\<rparr>"

definition echoState :: "string serializer" where
  "echoState = sampleState\<lparr>dom := (\<lambda>k. sampleNode\<lparr>dp := sampleDp
     \<lparr>pi := Some [[\<lparr>pi_k = ''1'', pi_named = False, pi_spc = None\<rparr>]]\<rparr>\<rparr>)\<rparr>"

text \<open>
  Documents in which only the id \<open>mw-ref-1\<close> is found (in the node's own document), and
  the extension calls used below.
\<close>

definition sampleDocs :: "string documents" where
  "sampleDocs = \<lparr>
     ownerGetElementById = (\<lambda>s nd i. if i = SStr ''mw-ref-1''
        then Some \<lparr>innerHTML = ''cite'', elemOuterHTML = ''<span id=mw-ref-1>cite</span>''\<rparr>
        else None),
     ownerQuerySelector = (\<lambda>s nd q. Inr None),
     firstAnchorHref = (\<lambda>s nd. None),
     editedDoc = (\<lambda>s. Some \<lparr>ed_getElementById = (\<lambda>i. None),
                               ed_querySelector = (\<lambda>q. Inr None)\<rparr>)\<rparr>"

definition refCall :: "extBody \<Rightarrow> dataMW" where
  "refCall b = \<lparr>mw_name = ''ref'', mw_attrs = None, mw_body = Some b\<rparr>"

text \<open>
  Two lines for the strip of nowikis next to quotes: the line of the code's own comment,
  \<open>''<nowiki/>'foo'<nowiki/>''\<close>, and a line with two nowikis that can both be stripped.
\<close>

definition quoteLine1 :: string where
  "quoteLine1 = [SQ, SQ] @ ''<nowiki/>'' @ [SQ] @ ''foo'' @ [SQ] @ ''<nowiki/>'' @ [SQ, SQ]"


text \<open>
  A line whose closing tag has no opener, the same line with another tag name, and a
  line whose closing brackets have no opener.
\<close>

definition quoteLine3 :: string where
  "quoteLine3 = ''a'' @ [SQ] @ ''<nowiki/></undefined>''"

definition quoteLine4 :: string where
  "quoteLine4 = ''a'' @ [SQ] @ ''<nowiki/></span>''"

definition quoteLine5 :: string where
  "quoteLine5 = '']] z'' @ [SQ] @ ''<nowiki/>''"








section \<open>Properties of the selective-serialization path\<close>

lemma defaultDSR_fields:
  "selserMode (defaultDSR k s) = selserMode s"
  "inModifiedContent (defaultDSR k s) = inModifiedContent s"
  "nodeDSR (defaultDSR k s) k = nodeDSR s k"
  "parentNode (dom (defaultDSR k s) k) = parentNode (dom s k)"
  "nodeName (dom (defaultDSR k s) k) = nodeName (dom s k)"
  "fostered (dp (dom (defaultDSR k s) k)) = fostered (dp (dom s k))"
  "misnested (dp (dom (defaultDSR k s) k)) = misnested (dp (dom s k))"
  by (simp_all add: defaultDSR_def nodeDSR_def Let_def split: option.splits)

lemma suppressSLC_attached:
  "parentNode (dom s k) \<noteq> None \<Longrightarrow> \<exists>b. suppressSLC c k s = Inr b"
  by (auto simp: suppressSLC_def Let_def)

lemma carryOverConstraints_dom: "dom (carryOverConstraints c k s) = dom s"
  by (simp add: carryOverConstraints_def)

lemma reuseOrigSrc_attached:
  assumes "parentNode (dom s k) \<noteq> None"
  shows "\<exists>t. reuseOrigSrc c k s =
           (Inr (if isFirstEncapsulationWrapperNode c t k
                 then of_sibling (skipOverEncapsulatedContent c t k)
                 else of_sibling (nextSibling (dom t k))), t)"
proof -
  let ?s1 = "carryOverConstraints c k (s\<lparr>currNodeUnmodified := True\<rparr>)"
  have "parentNode (dom ?s1 k) \<noteq> None"
    using assms by (simp add: carryOverConstraints_dom)
  then obtain b where "suppressSLC c k ?s1 = Inr b"
    using suppressSLC_attached by blast
  then show ?thesis
    by (simp add: reuseOrigSrc_def Let_def)
qed

lemma callHandler_no_handle:
  "fst (callHandler c \<lparr>handle = None\<rparr> k w s) = Inl TypeError"
  by (simp add: callHandler_def Let_def)

text \<open>
  C1. In selser mode, a node attached to a parent is serialized by the source-reuse branch
  (the chunks made from \<open>getOrigSrc(dsr[0], dsr[1])\<close> are emitted, whatever its handler is)
  exactly when the serializer is not inside modified content, the original source is
  still valid in the edited context, the DSR is valid and either end > start, or
  end = start and the tag is P, BR or OL, or the node is fostered or misnested, and the
  node has no diff markers.
\<close>

theorem selser_reuse_exactly_when:
  assumes "selserMode s" and "parentNode (dom s k) \<noteq> None"
  shows "(\<forall>h. serializeDOMNode c h k s = reuseOrigSrc c k (defaultDSR k s))
     \<longleftrightarrow> (\<not> inModifiedContent s
          \<and> origSrcValidInEditedContext c (defaultDSR k s) k
          \<and> isValidDSR c (nodeDSR s k)
          \<and> (js_gt (js_index (nodeDSR s k) 1) (js_index (nodeDSR s k) 0)
             \<or> (js_strict_eq (js_index (nodeDSR s k) 1) (js_index (nodeDSR s k) 0)
                 \<and> nodeName (dom s k) \<in> {''P'', ''BR'', ''OL''})
             \<or> fostered (dp (dom s k)) \<or> misnested (dp (dom s k)))
          \<and> \<not> hasDiffMarkers c (defaultDSR k s) k)"
    (is "?L \<longleftrightarrow> ?R")
proof
  assume R: ?R
  then have "selserCandidate c k (defaultDSR k s)"
    using assms by (auto simp: selserCandidate_def Let_def is_P_BR_OL_def defaultDSR_fields)
  with R show ?L by (simp add: serializeDOMNode_def Let_def)
next
  assume L: ?L
  show ?R
  proof (rule ccontr)
    assume N: "\<not> ?R"
    let ?h = "\<lparr>handle = None\<rparr> :: 'a handler"
    have "parentNode (dom (defaultDSR k s) k) \<noteq> None"
      using assms by (simp add: defaultDSR_fields)
    then obtain t r where r: "reuseOrigSrc c k (defaultDSR k s) = (Inr r, t)"
      using reuseOrigSrc_attached by blast
    have "\<exists>w. serializeDOMNode c ?h k s = callHandler c ?h k w (defaultDSR k s)"
      using N assms
      by (auto simp: serializeDOMNode_def Let_def selserCandidate_def is_P_BR_OL_def
            defaultDSR_fields)
    then obtain w where "serializeDOMNode c ?h k s = callHandler c ?h k w (defaultDSR k s)" ..
    then have "fst (serializeDOMNode c ?h k s) = Inl TypeError"
      by (simp add: callHandler_no_handle)
    with L r show False by simp
  qed
qed

lemma sample_defaultDSR: "defaultDSR 1 sampleState = sampleState"
  by (simp add: defaultDSR_def sampleState_def sampleDom_def sampleNode_def sampleDp_def Let_def fun_eq_iff)

theorem selser_reuse_exactly_when_witness:
  "selserMode sampleState \<and> parentNode (dom sampleState 1) \<noteq> None
   \<and> (\<forall>h. serializeDOMNode sampleCollab h 1 sampleState
            = reuseOrigSrc sampleCollab 1 (defaultDSR 1 sampleState))
   \<and> out (snd (reuseOrigSrc sampleCollab 1 (defaultDSR 1 sampleState))) = rest sampleState"
proof -
  have a: "selserMode sampleState" "parentNode (dom sampleState 1) \<noteq> None"
    by (simp_all add: sampleState_def sampleDom_def sampleNode_def)
  have b: "out (snd (reuseOrigSrc sampleCollab 1 sampleState)) = rest sampleState"
    by (simp add: reuseOrigSrc_def carryOverConstraints_def suppressSLC_def emitSelSer_def
          nodeDSR_def js_index_def of_sibling_def chunkText_def Let_def
          sampleCollab_def sampleState_def sampleDom_def sampleNode_def sampleDp_def)
  have r: "\<not> inModifiedContent sampleState
          \<and> origSrcValidInEditedContext sampleCollab (defaultDSR 1 sampleState) 1
          \<and> isValidDSR sampleCollab (nodeDSR sampleState 1)
          \<and> (js_gt (js_index (nodeDSR sampleState 1) 1) (js_index (nodeDSR sampleState 1) 0)
             \<or> (js_strict_eq (js_index (nodeDSR sampleState 1) 1) (js_index (nodeDSR sampleState 1) 0)
                 \<and> nodeName (dom sampleState 1) \<in> {''P'', ''BR'', ''OL''})
             \<or> fostered (dp (dom sampleState 1)) \<or> misnested (dp (dom sampleState 1)))
          \<and> \<not> hasDiffMarkers sampleCollab (defaultDSR 1 sampleState) 1"
    by (simp add: nodeDSR_def js_index_def js_gt_def
          sampleCollab_def sampleState_def sampleDom_def sampleNode_def sampleDp_def)
  have l: "\<forall>h. serializeDOMNode sampleCollab h 1 sampleState
            = reuseOrigSrc sampleCollab 1 (defaultDSR 1 sampleState)"
    using selser_reuse_exactly_when [OF a, of sampleCollab] r by blast
  show ?thesis
    using a b l by (simp only: sample_defaultDSR simp_thms)
qed

lemma of_sibling_not_NoNode: "of_sibling r \<noteq> NoNode"
  by (simp add: of_sibling_def split: option.splits)

lemma afterMethod_keeps_next:
  assumes "nx \<noteq> NoNode" and "afterMethod c u du m k dh (Inr nx, t) = (Inr r, t')"
  shows "r = nx"
  using assms by (auto simp: afterMethod_def Let_def split: sum.splits)

text \<open>
  C2. A node that takes the source-reuse branch gets the same result whatever its handler
  is (the handler is not called), and the method resolves to the node's next sibling, or
  to what \<open>skipOverEncapsulatedContent\<close> gives when the node is the first wrapper of
  encapsulated content; \<open>_serializeNode\<close> then resolves to that same node, so the
  walker resumes there.
\<close>

theorem reuse_skips_handler:
  assumes "selserCandidate c k (defaultDSR k s)"
    and "\<not> hasDiffMarkers c (defaultDSR k s) k"
    and "parentNode (dom s k) \<noteq> None"
  shows "\<exists>t nx. nx = (if isFirstEncapsulationWrapperNode c t k
                       then of_sibling (skipOverEncapsulatedContent c t k)
                       else of_sibling (nextSibling (dom t k)))
           \<and> (\<forall>h. serializeDOMNode c h k s = (Inr nx, t))
           \<and> (\<forall>u du m dh r t'. afterMethod c u du m k dh (Inr nx, t) = (Inr r, t') \<longrightarrow> r = nx)"
proof -
  have "parentNode (dom (defaultDSR k s) k) \<noteq> None"
    using assms(3) by (simp add: defaultDSR_fields)
  then obtain t where t: "reuseOrigSrc c k (defaultDSR k s) =
           (Inr (if isFirstEncapsulationWrapperNode c t k
                 then of_sibling (skipOverEncapsulatedContent c t k)
                 else of_sibling (nextSibling (dom t k))), t)"
    using reuseOrigSrc_attached by blast
  let ?nx = "if isFirstEncapsulationWrapperNode c t k
             then of_sibling (skipOverEncapsulatedContent c t k)
             else of_sibling (nextSibling (dom t k))"
  have a: "\<forall>h. serializeDOMNode c h k s = (Inr ?nx, t)"
    using assms(1,2) t by (auto simp: serializeDOMNode_def Let_def)
  have "?nx \<noteq> NoNode"
    by (simp add: of_sibling_not_NoNode)
  then have b: "\<forall>u du m dh r t'. afterMethod c u du m k dh (Inr ?nx, t) = (Inr r, t') \<longrightarrow> r = ?nx"
    using afterMethod_keeps_next by blast
  from a b show ?thesis by blast
qed

theorem reuse_skips_handler_witness:
  "selserCandidate sampleCollab 1 (defaultDSR 1 sampleState)
   \<and> \<not> hasDiffMarkers sampleCollab (defaultDSR 1 sampleState) 1
   \<and> parentNode (dom sampleState 1) \<noteq> None
   \<and> (\<exists>t nx. nx = (if isFirstEncapsulationWrapperNode sampleCollab t 1
                       then of_sibling (skipOverEncapsulatedContent sampleCollab t 1)
                       else of_sibling (nextSibling (dom t 1)))
           \<and> (\<forall>h. serializeDOMNode sampleCollab h 1 sampleState = (Inr nx, t)))"
proof -
  have "selserCandidate sampleCollab 1 sampleState"
    by (simp add: selserCandidate_def nodeDSR_def js_index_def js_gt_def
          Let_def sampleCollab_def sampleState_def sampleDom_def sampleNode_def sampleDp_def)
  then have a: "selserCandidate sampleCollab 1 (defaultDSR 1 sampleState)"
    by (simp only: sample_defaultDSR)
  have b: "\<not> hasDiffMarkers sampleCollab (defaultDSR 1 sampleState) 1"
    by (simp add: sampleCollab_def)
  have d: "parentNode (dom sampleState 1) \<noteq> None"
    by (simp add: sampleState_def sampleDom_def sampleNode_def)
  from reuse_skips_handler [OF a b d]
  have "\<exists>t nx. nx = (if isFirstEncapsulationWrapperNode sampleCollab t 1
                       then of_sibling (skipOverEncapsulatedContent sampleCollab t 1)
                       else of_sibling (nextSibling (dom t 1)))
           \<and> (\<forall>h. serializeDOMNode sampleCollab h 1 sampleState = (Inr nx, t))"
    by blast
  with a b d show ?thesis by blast
qed

section \<open>Properties of text emission\<close>

text \<open>
  C8. While a text node's chunk is emitted, \<open>escapeText\<close> holds the value of
  \<open>(onSOL || !currNodeUnmodified) && !inNoWiki && !inHTMLPre\<close> (every other field of the
  state is as before), and it is reset to false right after \<open>emitChunk\<close> returns, before
  trailing newlines are moved to the separator.
\<close>

theorem text_escape_flag:
  "serializeTextNode c u du k s =
     (Inr NoNode,
      moveTrailingNewlines c (sepSuffixMatch (nodeValue (dom s k))) k
        ((emitChunk c (Plain (textChunk u du k s)) (Some k)
            (s\<lparr>escapeText := (onSOL s \<or> \<not> currNodeUnmodified s)
                                \<and> \<not> inNoWiki s \<and> \<not> inHTMLPre s\<rparr>))
         \<lparr>escapeText := False\<rparr>))
   \<and> \<not> escapeText (emitTextChunk c (textChunk u du k s) k s)"
  by (simp add: serializeTextNode_def emitTextChunk_def Let_def)

lemma sample_textChunk: "textChunk sampleUtil sampleDomutil 3 sampleState = ''foo''"
  by (simp add: textChunk_def stripSepSuffix_def stripSepPrefix_def is_space_def is_blank_def
        Let_def sampleUtil_def sampleDomutil_def sampleState_def sampleDom_def sampleText_def
        sampleNode_def)

theorem text_escape_flag_witness:
  "envlog (snd (serializeTextNode sampleCollab sampleUtil sampleDomutil 3 sampleState))
     = [(''emitChunk'', ''escapeText'')]
   \<and> \<not> escapeText (snd (serializeTextNode sampleCollab sampleUtil sampleDomutil 3 sampleState))
   \<and> out (snd (serializeTextNode sampleCollab sampleUtil sampleDomutil 3 sampleState)) = ''foo''"
proof -
  have e: "serializeTextNode sampleCollab sampleUtil sampleDomutil 3 sampleState =
     (Inr NoNode,
      moveTrailingNewlines sampleCollab (sepSuffixMatch (nodeValue (dom sampleState 3))) 3
        ((emitChunk sampleCollab (Plain (textChunk sampleUtil sampleDomutil 3 sampleState)) (Some 3)
            (sampleState\<lparr>escapeText := (onSOL sampleState \<or> \<not> currNodeUnmodified sampleState)
                                \<and> \<not> inNoWiki sampleState \<and> \<not> inHTMLPre sampleState\<rparr>))
         \<lparr>escapeText := False\<rparr>))"
    using text_escape_flag [of sampleCollab sampleUtil sampleDomutil 3 sampleState]
    by (rule conjunct1)
  show ?thesis
    by (simp only: e sample_textChunk)
       (simp add: moveTrailingNewlines_def chunkText_def is_space_def
          sampleCollab_def sampleState_def sampleDom_def sampleText_def)
qed

section \<open>Properties of attribute serialization\<close>

lemma serializeAttr_ignored:
  "k \<in> set IGNORED_ATTRIBUTES \<or> k = ''data-mw''
     \<Longrightarrow> serializeAttr u m nd tok (k, v) outl s = (Inr outl, s)"
  by (simp add: serializeAttr_def)

lemma serializeAttrs_filter:
  "serializeAttrs u m nd tok kvs outl s =
     serializeAttrs u m nd tok
       (filter (\<lambda>kv. \<not> (fst kv \<in> set IGNORED_ATTRIBUTES \<or> fst kv = ''data-mw'')) kvs) outl s"
proof (induction kvs arbitrary: outl s)
  case Nil
  show ?case by simp
next
  case (Cons kv kvs)
  obtain k v where kv: "kv = (k, v)" by (cases kv)
  show ?case
  proof (cases "k \<in> set IGNORED_ATTRIBUTES \<or> k = ''data-mw''")
    case True
    then have "filter (\<lambda>kv. \<not> (fst kv \<in> set IGNORED_ATTRIBUTES \<or> fst kv = ''data-mw'')) (kv # kvs)
       = filter (\<lambda>kv. \<not> (fst kv \<in> set IGNORED_ATTRIBUTES \<or> fst kv = ''data-mw'')) kvs"
      by (auto simp: kv)
    moreover have "serializeAttrs u m nd tok (kv # kvs) outl s = serializeAttrs u m nd tok kvs outl s"
      using True by (simp add: kv serializeAttr_ignored)
    ultimately show ?thesis
      using Cons.IH [of outl s] by simp
  next
    case False
    then show ?thesis
      using Cons.IH by (simp add: kv split: prod.splits sum.splits)
  qed
qed

lemma id_not_ignored: "''id'' \<notin> set IGNORED_ATTRIBUTES \<and> ''id'' \<noteq> ''data-mw''"
  by (simp add: IGNORED_ATTRIBUTES_def)

text \<open>
  C3, as the code has it. An attribute of the token whose key is data-parsoid, data-mw,
  data-ve-changed, data-parsoid-changed, data-parsoid-diff or data-parsoid-serialize adds
  nothing to the output and changes nothing (the loop gives the same result with these
  attributes deleted). An attribute \<open>id\<close> whose value matches \<open>^mw[\w-]{2,}$\<close> adds an entry
  only when the node has a data-parsoid attribute and the shadow info is unmodified and
  from source; when the node has no data-parsoid attribute, a warning is logged and
  nothing is added.
\<close>

theorem ignored_attributes_skipped:
  "(k \<in> set IGNORED_ATTRIBUTES \<or> k = ''data-mw''
      \<longrightarrow> serializeAttr u m nd tok (k, v) outl s = (Inr outl, s))
   \<and> serializeAttrs u m nd tok kvs outl s =
       serializeAttrs u m nd tok
         (filter (\<lambda>kv. \<not> (fst kv \<in> set IGNORED_ATTRIBUTES \<or> fst kv = ''data-mw'')) kvs) outl s
   \<and> (isParsoidId v \<and> lacksDataParsoid (dom s nd)
      \<longrightarrow> serializeAttr u m nd tok (''id'', v) outl s
            = (Inr outl, s\<lparr>envlog := envlog s @ [idWarning v (dom s nd)]\<rparr>))
   \<and> (isParsoidId v \<and> \<not> lacksDataParsoid (dom s nd)
      \<longrightarrow> serializeAttr u m nd tok (''id'', v) outl s
            = (Inr (if \<not> modified (getAttributeShadowInfo u tok ''id'')
                       \<and> fromsrc (getAttributeShadowInfo u tok ''id'')
                    then outl @ [kvEntry ''id'' (quoteAttr (si_value (getAttributeShadowInfo u tok ''id'')))]
                    else outl), s))"
proof (intro conjI impI)
  assume "k \<in> set IGNORED_ATTRIBUTES \<or> k = ''data-mw''"
  then show "serializeAttr u m nd tok (k, v) outl s = (Inr outl, s)"
    by (rule serializeAttr_ignored)
next
  show "serializeAttrs u m nd tok kvs outl s =
       serializeAttrs u m nd tok
         (filter (\<lambda>kv. \<not> (fst kv \<in> set IGNORED_ATTRIBUTES \<or> fst kv = ''data-mw'')) kvs) outl s"
    by (rule serializeAttrs_filter)
next
  assume "isParsoidId v \<and> lacksDataParsoid (dom s nd)"
  then show "serializeAttr u m nd tok (''id'', v) outl s
            = (Inr outl, s\<lparr>envlog := envlog s @ [idWarning v (dom s nd)]\<rparr>)"
    using id_not_ignored by (simp add: serializeAttr_def)
next
  assume "isParsoidId v \<and> \<not> lacksDataParsoid (dom s nd)"
  then show "serializeAttr u m nd tok (''id'', v) outl s
            = (Inr (if \<not> modified (getAttributeShadowInfo u tok ''id'')
                       \<and> fromsrc (getAttributeShadowInfo u tok ''id'')
                    then outl @ [kvEntry ''id'' (quoteAttr (si_value (getAttributeShadowInfo u tok ''id'')))]
                    else outl), s)"
    using id_not_ignored by (simp add: serializeAttr_def Let_def)
qed

theorem ignored_attributes_skipped_witness:
  "serializeAttr sampleUtil sampleModules 1 (mkTagTk sampleDomutil sampleState 1)
      (''data-mw'', ''{}'') [] sampleState = (Inr [], sampleState)
   \<and> isParsoidId ''mwAb'' \<and> lacksDataParsoid (dom sampleState 1)
   \<and> serializeAttr sampleUtil sampleModules 1 (mkTagTk sampleDomutil sampleState 1)
        (''id'', ''mwAb'') [] sampleState
       = (Inr [], sampleState\<lparr>envlog := envlog sampleState @ [idWarning ''mwAb'' (dom sampleState 1)]\<rparr>)"
proof -
  let ?tok = "mkTagTk sampleDomutil sampleState 1"
  note t = ignored_attributes_skipped [of "''data-mw''" sampleUtil sampleModules 1 ?tok
              "''{}''" "[]" sampleState "[]"]
  note t2 = ignored_attributes_skipped [of "''data-mw''" sampleUtil sampleModules 1 ?tok
              "''mwAb''" "[]" sampleState "[]"]
  have a: "isParsoidId ''mwAb''"
    by (simp add: isParsoidId_def is_word_def)
  have b: "lacksDataParsoid (dom sampleState 1)"
    by (simp add: lacksDataParsoid_def sampleState_def sampleDom_def sampleNode_def)
  from t have c: "serializeAttr sampleUtil sampleModules 1 ?tok (''data-mw'', ''{}'') [] sampleState
      = (Inr [], sampleState)" by blast
  from t2 a b have d: "serializeAttr sampleUtil sampleModules 1 ?tok (''id'', ''mwAb'') [] sampleState
       = (Inr [], sampleState\<lparr>envlog := envlog sampleState @ [idWarning ''mwAb'' (dom sampleState 1)]\<rparr>)"
    by blast
  from a b c d show ?thesis by blast
qed

text \<open>
  The output can still carry such a key: an attribute \<open>data-x-data-mw\<close> (the form in which the parser
  protects a \<open>data-mw\<close> attribute written in wikitext) is serialized with its prefix
  removed, so \<open>data-mw="v"\<close> stands in the attribute string.
\<close>

theorem ignored_key_in_output_counterexample:
  "fst (serializeAttributes sampleUtil sampleModules 1
          \<lparr>tk_name = ''div'', attribs = [(''data-x-data-mw'', ''v'')], dataAttribs = sampleDp\<rparr>
          sampleState)
     = Inr (''data-mw='' @ [DQ] @ ''v'' @ [DQ])"
  by (simp add: serializeAttributes_def serializeAttr_def serializeOtherAttr_def
        IGNORED_ATTRIBUTES_def isParsoidId_def parsoidValueStrip_def
        getAttributeKey_def getAttributeValue_def stripDataX_def toLowerCase_def toLowerChar_def
        restoreSanitized_def kvEntry_def quoteAttr_def Let_def
        sampleUtil_def sampleModules_def sampleState_def sampleDom_def sampleNode_def sampleDp_def)

section \<open>Properties of HTML tag serialization\<close>

lemma end_tag_keeps_pre_flag:
  "inHTMLPre (snd (serializeHTMLEndTag c u du nd True s)) = inHTMLPre s"
  by (simp add: serializeHTMLEndTag_def split: option.splits)

text \<open>
  C9, at a PRE element in HTML syntax whose wrapper is unmodified: the open tag sets
  \<open>inHTMLPre\<close> and comes from the source, the close tag comes from the source too and
  leaves the flag set. With a modified wrapper the close tag resets the flag.
\<close>

theorem pre_flag_left_set:
  "serializeHTMLTag sampleCollab sampleUtil sampleDomutil sampleModules 1 True preState
     = (Inr ''<pre>'', preState\<lparr>inHTMLPre := True\<rparr>)
   \<and> serializeHTMLEndTag sampleCollab sampleUtil sampleDomutil 1 True (preState\<lparr>inHTMLPre := True\<rparr>)
     = (Inr ''</pre>'', preState\<lparr>inHTMLPre := True\<rparr>)
   \<and> serializeHTMLEndTag sampleCollab sampleUtil sampleDomutil 1 False (preState\<lparr>inHTMLPre := True\<rparr>)
     = (Inr ''</pre>'', preState\<lparr>inHTMLPre := False\<rparr>)"
  by (simp add: serializeHTMLTag_def serializeHTMLEndTag_def js_index_def js_add_def js_sub_def
        toLowerCase_def toLowerChar_def Let_def
        sampleCollab_def sampleUtil_def sampleDomutil_def preState_def preNode_def
        sampleState_def sampleDom_def sampleNode_def sampleDp_def)

section \<open>Properties of handler selection\<close>

text \<open>
  C10. When the generic HTML element handler, every entry of the tag-handler registry and
  the encapsulation handler have a \<open>handle\<close> method, \<open>_getDOMHandler\<close> returns, for every
  element node that has a parent, a handler with a \<open>handle\<close> method (the encapsulation
  handler, else the generic HTML handler for an HTML-syntax tag without a registry entry
  or for a new element under an HTML-syntax list or table, else the registry entry for
  the tag and syntax, else the entry for the tag, else the generic HTML handler), and the
  assertion of \<open>_serializeNode\<close> passes.
\<close>

theorem dom_handler_found:
  assumes "handle (htmlElementHandler m) \<noteq> None"
    and "\<forall>key h. tagHandlers m key = Some h \<longrightarrow> handle h \<noteq> None"
    and "\<forall>h. getEncapsulatedContentHandler m s k = Some h \<longrightarrow> handle h \<noteq> None"
    and "isElt du s k"
    and "parentNode (dom s k) \<noteq> None"
  shows "\<exists>h. getDOMHandler du u m s (Some k) = Inr h \<and> handle h \<noteq> None
            \<and> assertHandler (getDOMHandler du u m s (Some k)) = Inr h"
proof -
  from assms(5) obtain p where p: "parentNode (dom s k) = Some p" by blast
  have "\<exists>b. newEltInHtmlParent du u s k = Inr b"
    by (auto simp: newEltInHtmlParent_def Let_def p)
  then obtain b where b: "newEltInHtmlParent du u s k = Inr b" ..
  have "\<exists>h. getDOMHandler du u m s (Some k) = Inr h \<and> handle h \<noteq> None"
  proof (cases "getEncapsulatedContentHandler m s k")
    case (Some h)
    with assms(3,4) show ?thesis by (simp add: getDOMHandler_def)
  next
    case None
    with assms(1,2,4) b show ?thesis
      by (cases b) (auto simp: getDOMHandler_def Let_def split: option.splits)
  qed
  then obtain h where h: "getDOMHandler du u m s (Some k) = Inr h" "handle h \<noteq> None"
    by blast
  then have "assertHandler (getDOMHandler du u m s (Some k)) = Inr h"
    by (auto simp: assertHandler_def)
  with h show ?thesis by blast
qed

theorem dom_handler_found_witness:
  "handle (htmlElementHandler sampleModules) \<noteq> None
   \<and> isElt sampleDomutil sampleState 1
   \<and> parentNode (dom sampleState 1) \<noteq> None
   \<and> (\<exists>h. getDOMHandler sampleDomutil sampleUtil sampleModules sampleState (Some 1) = Inr h
           \<and> handle h \<noteq> None
           \<and> assertHandler (getDOMHandler sampleDomutil sampleUtil sampleModules sampleState (Some 1))
               = Inr h)"
proof -
  have a: "handle (htmlElementHandler sampleModules) \<noteq> None"
    by (simp add: sampleModules_def sampleHandler_def)
  have b: "\<forall>key h. tagHandlers sampleModules key = Some h \<longrightarrow> handle h \<noteq> None"
    by (simp add: sampleModules_def sampleHandler_def)
  have c: "\<forall>h. getEncapsulatedContentHandler sampleModules sampleState 1 = Some h
             \<longrightarrow> handle h \<noteq> None"
    by (simp add: sampleModules_def)
  have d: "isElt sampleDomutil sampleState 1"
    by (simp add: sampleDomutil_def sampleState_def sampleDom_def sampleNode_def)
  have e: "parentNode (dom sampleState 1) \<noteq> None"
    by (simp add: sampleState_def sampleDom_def sampleNode_def)
  from dom_handler_found [OF a b c d e, of sampleUtil] a d e show ?thesis by blast
qed

section \<open>Properties of template emission\<close>

text \<open>
  What \<open>trim\<close> gives: the value is some whitespace, the trimmed value and some whitespace
  again, and the trimmed value neither begins nor ends with whitespace. There is one
  such middle part only.
\<close>

lemma js_trim_split:
  "\<exists>l r. t = l @ js_trim t @ r \<and> list_all is_space l \<and> list_all is_space r"
proof -
  let ?d = "dropWhile is_space t"
  have 1: "t = takeWhile is_space t @ ?d" by simp
  have "takeWhile is_space (rev ?d) @ dropWhile is_space (rev ?d) = rev ?d"
    by (rule takeWhile_dropWhile_id)
  then have "rev (takeWhile is_space (rev ?d) @ dropWhile is_space (rev ?d)) = rev (rev ?d)"
    by (rule arg_cong)
  then have 2: "?d = js_trim t @ rev (takeWhile is_space (rev ?d))"
    by (simp only: js_trim_def rev_append rev_rev_ident)
  have 3: "list_all is_space (takeWhile is_space t)"
    by (simp add: list_all_iff) (meson set_takeWhileD)
  have 4: "list_all is_space (rev (takeWhile is_space (rev ?d)))"
    by (simp add: list_all_iff) (meson set_takeWhileD)
  from 1 2 have "t = takeWhile is_space t @ js_trim t @ rev (takeWhile is_space (rev ?d))"
    by metis
  with 3 4 show ?thesis by blast
qed

lemma js_trim_ends:
  assumes "js_trim t \<noteq> []"
  shows "\<not> is_space (hd (js_trim t)) \<and> \<not> is_space (last (js_trim t))"
proof -
  let ?d = "dropWhile is_space t"
  let ?e = "dropWhile is_space (rev ?d)"
  have e: "?e \<noteq> []" using assms by (simp add: js_trim_def)
  then have l: "\<not> is_space (hd ?e)" by (metis hd_dropWhile)
  have "last (js_trim t) = hd ?e"
    using e by (simp add: js_trim_def last_rev)
  with l have last: "\<not> is_space (last (js_trim t))" by simp
  have d: "?d \<noteq> []" using e by (metis dropWhile.simps(1) rev.simps(1))
  then have hd: "\<not> is_space (hd ?d)" by (metis hd_dropWhile)
  have "takeWhile is_space (rev ?d) @ ?e = rev ?d"
    by (rule takeWhile_dropWhile_id)
  then have "rev (takeWhile is_space (rev ?d) @ ?e) = rev (rev ?d)"
    by (rule arg_cong)
  then have "?d = js_trim t @ rev (takeWhile is_space (rev ?d))"
    by (simp only: js_trim_def rev_append rev_rev_ident)
  then have "hd ?d = hd (js_trim t)"
    using assms by (metis hd_append2)
  with hd last show ?thesis by simp
qed

lemma js_trim_unique:
  assumes "t = l @ w @ r" and "list_all is_space l" and "list_all is_space r"
    and "w = [] \<or> (\<not> is_space (hd w) \<and> \<not> is_space (last w))"
  shows "w = js_trim t"
proof (cases "w = []")
  case True
  with assms(1-3) have "list_all is_space t" by simp
  then have "\<forall>x \<in> set t. is_space x" by (simp add: list_all_iff)
  then have dd: "dropWhile is_space t = []" by (simp only: dropWhile_eq_Nil_conv)
  show ?thesis unfolding js_trim_def dd using True by simp
next
  case False
  with assms(4) have h: "\<not> is_space (hd w)" and e: "\<not> is_space (last w)" by simp_all
  have "dropWhile is_space (l @ w @ r) = dropWhile is_space (w @ r)"
    using assms(2) by (simp add: dropWhile_append list_all_iff)
  also have "\<dots> = w @ r"
    using False h by (cases w) simp_all
  finally have d: "dropWhile is_space t = w @ r" using assms(1) by simp
  have "dropWhile is_space (rev r @ rev w) = dropWhile is_space (rev w)"
    using assms(3) by (simp add: dropWhile_append list_all_iff)
  also have "\<dots> = rev w"
    using False e by (cases "rev w") (simp_all add: hd_rev)
  finally show ?thesis by (simp add: js_trim_def d)
qed

lemma natToString_nonempty: "natToString n \<noteq> []"
  by (simp add: natToString.simps [of n])

text \<open>
  What \<open>pushArg\<close> pushes, with the options that the escape handler gets as \<open>argOpts\<close>
  builds them.
\<close>

lemma pushArg_cases:
  assumes "\<forall>v opts. serializeAsNamed opts \<longrightarrow> ev_serializeAsNamed (escapeTplArgWT u v opts)"
    and "getParam ps k = Some p"
    and "resolveValue u m k p s = (Inr v, s1)"
  shows "\<exists>a'. pushArg u m isTpl np n ps k paramInfo a s = (Inr a', s1)
     \<and> (let esc = escapeTplArgWT u v (argOpts isTpl np n k paramInfo a);
             positional = (k = natToString (numericIndex a)
                           \<and> \<not> (case paramInfo of None \<Rightarrow> False | Some i \<Rightarrow> pi_named i)
                           \<and> key_wt p = None
                           \<and> \<not> ev_serializeAsNamed esc);
             name = (case key_wt p of Some w \<Rightarrow> w | None \<Rightarrow> k);
             spc = (case (case paramInfo of None \<Rightarrow> None | Some i \<Rightarrow> pi_spc i) of
                      Some q \<Rightarrow> q
                    | None \<Rightarrow> if k = [] then ([], [], [], []) else ([], '' '', '' '', []))
         in (positional \<longrightarrow> argBuf a' = argBuf a @ [ev_v esc]
                             \<and> numericIndex a' = numericIndex a + 1)
          \<and> (\<not> positional \<longrightarrow>
                (\<exists>l w r. ev_v esc = l @ w @ r \<and> list_all is_space l \<and> list_all is_space r
                   \<and> (w = [] \<or> (\<not> is_space (hd w) \<and> \<not> is_space (last w)))
                   \<and> argBuf a' = argBuf a @ [fst spc @ name @ fst (snd spc) @ ''=''
                                               @ fst (snd (snd spc)) @ w @ snd (snd (snd spc))])
                \<and> numericIndex a' = numericIndex a))"
proof -
  let ?opts = "argOpts isTpl np n k paramInfo a"
  let ?esc = "escapeTplArgWT u v ?opts"
  let ?a1 = "a\<lparr>argIndexCounter := argIndexCounter a + 1\<rparr>"
  let ?name = "case key_wt p of Some w \<Rightarrow> w | None \<Rightarrow> k"
  let ?spc = "case (case paramInfo of None \<Rightarrow> None | Some i \<Rightarrow> pi_spc i) of
                Some q \<Rightarrow> q
              | None \<Rightarrow> if k = [] then ([], [], [], []) else ([], '' '', '' '', [])"
  let ?named = "argBuf a @ [fst ?spc @ ?name @ fst (snd ?spc) @ ''=''
                  @ fst (snd (snd ?spc)) @ js_trim (ev_v ?esc) @ snd (snd (snd ?spc))]"
  have run: "pushArg u m isTpl np n ps k paramInfo a s
               = (Inr (pushEscaped u ?opts k paramInfo p v ?a1), s1)"
    using assms(2,3) by (simp add: pushArg_def Let_def)
  have mono: "serializeAsNamed ?opts \<Longrightarrow> ev_serializeAsNamed ?esc"
    using assms(1) by blast
  have opts: "serializeAsNamed ?opts
      = ((case paramInfo of None \<Rightarrow> False | Some i \<Rightarrow> pi_named i)
          \<or> k \<noteq> natToString (numericIndex a))"
    by (simp add: argOpts_def)
  have empty: "k = [] \<Longrightarrow> serializeAsNamed ?opts"
    using natToString_nonempty [of "numericIndex a"] unfolding opts by auto
  have spc: "(case (case paramInfo of None \<Rightarrow> None | Some i \<Rightarrow> pi_spc i) of
                Some q \<Rightarrow> q
              | None \<Rightarrow> if serializeAsNamed ?opts \<and> k = [] then ([], [], [], [])
                         else ([], '' '', '' '', [])) = ?spc"
    using empty by (cases "k = []") (simp_all split: option.splits)
  obtain l r where trim: "ev_v ?esc = l @ js_trim (ev_v ?esc) @ r"
    and l: "list_all is_space l" and r: "list_all is_space r"
    using js_trim_split [of "ev_v ?esc"] by blast
  have ends: "js_trim (ev_v ?esc) = []
      \<or> (\<not> is_space (hd (js_trim (ev_v ?esc))) \<and> \<not> is_space (last (js_trim (ev_v ?esc))))"
    using js_trim_ends [of "ev_v ?esc"] by blast
  have named: "\<exists>l w r. ev_v ?esc = l @ w @ r \<and> list_all is_space l \<and> list_all is_space r
       \<and> (w = [] \<or> (\<not> is_space (hd w) \<and> \<not> is_space (last w)))
       \<and> b = argBuf a @ [fst ?spc @ ?name @ fst (snd ?spc) @ ''=''
                          @ fst (snd (snd ?spc)) @ w @ snd (snd (snd ?spc))]"
    if "b = ?named" for b
    using that trim l r ends by blast
  have pushed_named: "argBuf (pushEscaped u ?opts k paramInfo p v ?a1) = ?named
      \<and> numericIndex (pushEscaped u ?opts k paramInfo p v ?a1) = numericIndex a"
    if "key_wt p \<noteq> None \<or> ev_serializeAsNamed ?esc"
    using that
    by (cases ?spc) (auto simp: pushEscaped_def Let_def spc split: option.splits)
  have pushed_pos: "argBuf (pushEscaped u ?opts k paramInfo p v ?a1) = argBuf a @ [ev_v ?esc]
      \<and> numericIndex (pushEscaped u ?opts k paramInfo p v ?a1) = numericIndex a + 1"
    if "key_wt p = None" and "\<not> ev_serializeAsNamed ?esc"
    using that by (simp add: pushEscaped_def Let_def)
  let ?pos = "k = natToString (numericIndex a)
                \<and> \<not> (case paramInfo of None \<Rightarrow> False | Some i \<Rightarrow> pi_named i)
                \<and> key_wt p = None
                \<and> \<not> ev_serializeAsNamed ?esc"
  let ?a2 = "pushEscaped u ?opts k paramInfo p v ?a1"
  have iff: "?pos \<longleftrightarrow> \<not> (key_wt p \<noteq> None \<or> ev_serializeAsNamed ?esc)"
    using mono unfolding opts by auto
  have Fpos: "?pos \<longrightarrow> argBuf ?a2 = argBuf a @ [ev_v ?esc]
                          \<and> numericIndex ?a2 = numericIndex a + 1"
    using pushed_pos by blast
  have Fneg: "\<not> ?pos \<longrightarrow>
      (\<exists>l w r. ev_v ?esc = l @ w @ r \<and> list_all is_space l \<and> list_all is_space r
         \<and> (w = [] \<or> (\<not> is_space (hd w) \<and> \<not> is_space (last w)))
         \<and> argBuf ?a2 = argBuf a @ [fst ?spc @ ?name @ fst (snd ?spc) @ ''=''
                                      @ fst (snd (snd ?spc)) @ w @ snd (snd (snd ?spc))])
      \<and> numericIndex ?a2 = numericIndex a"
  proof
    assume "\<not> ?pos"
    then have "key_wt p \<noteq> None \<or> ev_serializeAsNamed ?esc" using iff by blast
    from pushed_named [OF this] named [of "argBuf ?a2"]
    show "(\<exists>l w r. ev_v ?esc = l @ w @ r \<and> list_all is_space l \<and> list_all is_space r
         \<and> (w = [] \<or> (\<not> is_space (hd w) \<and> \<not> is_space (last w)))
         \<and> argBuf ?a2 = argBuf a @ [fst ?spc @ ?name @ fst (snd ?spc) @ ''=''
                                      @ fst (snd (snd ?spc)) @ w @ snd (snd (snd ?spc))])
      \<and> numericIndex ?a2 = numericIndex a"
      by blast
  qed
  from Fpos Fneg show ?thesis
    unfolding run Let_def by blast
qed

text \<open>
  C5. The escape handler is a parameter; as the spec has it, it may turn a positional
  argument into a named one and never the reverse. Then a parameter is pushed as
  positional (its escaped value as it is, not trimmed, and the positional counter goes
  up by one) exactly when its key is the decimal form of the positional counter, data-parsoid
  does not flag it as named, it has no \<open>key.wt\<close> and the escape handler does not ask for
  the named form. Otherwise the counter stays and the parameter is pushed as a named one:
  the name (\<open>key.wt\<close> if there is one, else the key), an equals sign and the trimmed
  value, with the spacing that data-parsoid remembers around them, else no spacing for
  the empty key and one space on each side of the equals sign for any other. The trimmed
  value is the escaped value without the whitespace at its two ends.
\<close>

theorem template_param_positional:
  assumes "\<forall>v opts. serializeAsNamed opts \<longrightarrow> ev_serializeAsNamed (escapeTplArgWT u v opts)"
    and "getParam ps k = Some p"
    and "resolveValue u m k p s = (Inr v, s1)"
  shows "\<exists>a'. pushArg u m isTpl np n ps k paramInfo a s = (Inr a', s1)
     \<and> (let flagged = (case paramInfo of None \<Rightarrow> False | Some i \<Rightarrow> pi_named i);
             esc = escapeTplArgWT u v
                     \<lparr>serializeAsNamed = (flagged \<or> k \<noteq> natToString (numericIndex a)),
                      isTemplate = isTpl, argPositionalIndex = numericIndex a,
                      numPositionalArgs = np, argIndex = argIndexCounter a, numArgs = n\<rparr>;
             positional = (k = natToString (numericIndex a) \<and> \<not> flagged
                           \<and> key_wt p = None \<and> \<not> ev_serializeAsNamed esc);
             name = (case key_wt p of Some w \<Rightarrow> w | None \<Rightarrow> k);
             spc = (case (case paramInfo of None \<Rightarrow> None | Some i \<Rightarrow> pi_spc i) of
                      Some q \<Rightarrow> q
                    | None \<Rightarrow> if k = [] then ([], [], [], []) else ([], '' '', '' '', []))
         in (positional \<longrightarrow> argBuf a' = argBuf a @ [ev_v esc]
                             \<and> numericIndex a' = numericIndex a + 1)
          \<and> (\<not> positional \<longrightarrow>
                (\<exists>l w r. ev_v esc = l @ w @ r \<and> list_all is_space l \<and> list_all is_space r
                   \<and> (w = [] \<or> (\<not> is_space (hd w) \<and> \<not> is_space (last w)))
                   \<and> argBuf a' = argBuf a @ [fst spc @ name @ fst (snd spc) @ ''=''
                                               @ fst (snd (snd spc)) @ w @ snd (snd (snd spc))])
                \<and> numericIndex a' = numericIndex a))"
  using pushArg_cases [OF assms, of isTpl np n paramInfo a]
  unfolding argOpts_def Let_def .

lemma sample_escape_monotone:
  "\<forall>v opts. serializeAsNamed opts \<longrightarrow> ev_serializeAsNamed (escapeTplArgWT sampleUtil v opts)"
  by (simp add: sampleUtil_def)

text \<open>
  Two instances: the parameter \<open>1\<close> of the sample template at the counter 1, and a new
  parameter \<open>x\<close> whose value has whitespace at both ends.
\<close>

theorem template_param_positional_witness:
  "(\<exists>a'. pushArg sampleUtil sampleModules True 1 2 echoParams ''1''
               (Some \<lparr>pi_k = ''1'', pi_named = False, pi_spc = None\<rparr>)
               \<lparr>argBuf = [], argIndexCounter = 1, numericIndex = 1\<rparr> echoState = (Inr a', echoState)
           \<and> argBuf a' = [''a''] \<and> numericIndex a' = 2)
   \<and> (\<exists>a'. pushArg sampleUtil sampleModules True 1 2 spacedParams ''x'' None
               \<lparr>argBuf = [''a''], argIndexCounter = 2, numericIndex = 2\<rparr> echoState
             = (Inr a', echoState)
           \<and> argBuf a' = [''a'', ''x = b''] \<and> numericIndex a' = 2)"
proof -
  let ?p = "\<lparr>wt = WtStr ''a'', p_html = SUndef, key_wt = None\<rparr>"
  let ?i = "Some \<lparr>pi_k = ''1'', pi_named = False, pi_spc = None\<rparr>"
  let ?a = "\<lparr>argBuf = [], argIndexCounter = 1, numericIndex = 1\<rparr>"
  have l: "getParam echoParams ''1'' = Some ?p"
    by (simp add: echoParams_def getParam_def getMember_def)
  have r: "resolveValue sampleUtil sampleModules ''1'' ?p echoState = (Inr ''a'', echoState)"
    by (simp add: resolveValue_def)
  from template_param_positional [OF sample_escape_monotone l r, of True 1 2 ?i ?a]
  obtain a' where 1: "pushArg sampleUtil sampleModules True 1 2 echoParams ''1'' ?i ?a echoState
                        = (Inr a', echoState)"
    and 2: "argBuf a' = [''a''] \<and> numericIndex a' = 2"
    by (auto simp: Let_def argOpts_def sampleUtil_def natToString.simps)
  let ?q = "\<lparr>wt = WtStr ''  b  '', p_html = SUndef, key_wt = None\<rparr>"
  let ?b = "\<lparr>argBuf = [''a''], argIndexCounter = 2, numericIndex = 2\<rparr>"
  have l2: "getParam spacedParams ''x'' = Some ?q"
    by (simp add: spacedParams_def getParam_def getMember_def)
  have r2: "resolveValue sampleUtil sampleModules ''x'' ?q echoState = (Inr ''  b  '', echoState)"
    by (simp add: resolveValue_def)
  from template_param_positional [OF sample_escape_monotone l2 r2, of True 1 2 None ?b]
  obtain b' l w r where 3: "pushArg sampleUtil sampleModules True 1 2 spacedParams ''x'' None ?b echoState
                        = (Inr b', echoState)"
    and 4: "''  b  '' = l @ w @ r" "list_all is_space l" "list_all is_space r"
           "w = [] \<or> (\<not> is_space (hd w) \<and> \<not> is_space (last w))"
    and 5: "argBuf b' = [''a'', ''x = '' @ w]" "numericIndex b' = 2"
    by (auto simp: Let_def argOpts_def sampleUtil_def natToString.simps)
  from js_trim_unique [OF 4] have "w = ''b''"
    by (simp add: js_trim_def is_space_def)
  with 1 2 3 5 show ?thesis by auto
qed

text \<open>
  The whole template: the first parameter is positional, the new one is named and gets
  the default spacing, one space on each side of its equals sign. A key of data-parsoid
  that the parameters only inherit (\<open>constructor\<close>) is pushed too, as a named parameter
  with the serialization of an absent HTML as its value.
\<close>

lemma template_scenario:
  "buildTemplateWT sampleUtil sampleModules 1 [TplPart echoTemplate] echoState
     = (Inr ''{{echo|a|x = b}}'', echoState)"
  by (simp add: buildTemplateWT_def buildPart_def pushArg_def pushEscaped_def argOpts_def
        resolveValue_def countPositionalArgs_def js_trim_def is_space_def natToString.simps
        getParam_def getMember_def objectPrototypeMembers_def
        Let_def echoTemplate_def echoParams_def echoState_def sampleUtil_def sampleNode_def
        sampleDp_def)

lemma inherited_param_pushed:
  "pushOldParams sampleUtil sampleModules True 0 2 echoParams
       [\<lparr>pi_k = ''constructor'', pi_named = False, pi_spc = None\<rparr>]
       \<lparr>argBuf = [], argIndexCounter = 1, numericIndex = 1\<rparr> echoState
     = (Inr \<lparr>argBuf = [''constructor = ''], argIndexCounter = 2, numericIndex = 1\<rparr>, echoState)"
  by (simp add: pushArg_def pushEscaped_def argOpts_def resolveValue_def js_trim_def
        natToString.simps getParam_def getMember_def objectPrototypeMembers_def
        Let_def echoParams_def sampleUtil_def sampleModules_def)

section \<open>Properties of extension emission\<close>

text \<open>
  C6, as the code has it. The body of an extension call is: the serialized \<open>body.html\<close>
  when that is a non-empty string; else, when \<open>body.html\<close> or \<open>body.id\<close> is a string, the
  serialized content of the element with the id \<open>body.id\<close>, looked up in the node's own
  document and then in the edited document, and when no such element is found an error is
  logged and the call is dropped (empty output) without a look at \<open>body.extsrc\<close>; else
  \<open>body.extsrc\<close> when it is neither null nor undefined; else an error is logged and the
  tags are written with an empty body.
\<close>

theorem extension_body_resolution:
  "(truthyStr (body_html b)
      \<longrightarrow> resolveExtBody m x nd name b s = bodyFromHtml m name (strOf (body_html b)) s)
   \<and> ((isString (body_html b) \<or> isString (body_id b)) \<and> \<not> truthyStr (body_html b)
        \<and> ownerGetElementById x s nd (body_id b) = Some e
      \<longrightarrow> resolveExtBody m x nd name b s = bodyFromHtml m name (innerHTML e) s)
   \<and> ((isString (body_html b) \<or> isString (body_id b)) \<and> \<not> truthyStr (body_html b)
        \<and> ownerGetElementById x s nd (body_id b) = None \<and> editedDoc x s = Some ed
        \<and> ed_getElementById ed (body_id b) = Some e
      \<longrightarrow> resolveExtBody m x nd name b s = bodyFromHtml m name (innerHTML e) s)
   \<and> ((isString (body_html b) \<or> isString (body_id b)) \<and> \<not> truthyStr (body_html b)
        \<and> lookupBodyElt x nd (body_id b) s = None \<and> extraDebugInfo x nd s = Inr dbg
      \<longrightarrow> resolveExtBody m x nd name b s
            = (Inr None, s\<lparr>envlog := envlog s @ [missingBodyError name (body_id b) (dom s nd) dbg]\<rparr>))
   \<and> (\<not> isString (body_html b) \<and> \<not> isString (body_id b) \<and> body_extsrc b = SStr src
      \<longrightarrow> resolveExtBody m x nd name b s = (Inr (Some src), s))
   \<and> (\<not> isString (body_html b) \<and> \<not> isString (body_id b)
        \<and> (body_extsrc b = SNull \<or> body_extsrc b = SUndef)
      \<longrightarrow> resolveExtBody m x nd name b s
            = (Inr (Some []), s\<lparr>envlog := envlog s @ [unavailableError (dom s nd)]\<rparr>))
   \<and> (serializeAttributes u m nd (extToken (dom s nd) d) s = (Inr attrStr, s1)
        \<and> mw_body d = Some b \<and> resolveExtBody m x nd (mw_name d) b s1 = (Inr None, s2)
      \<longrightarrow> defaultExtensionHandler u m x nd d s = (Inr [], s2))
   \<and> (serializeAttributes u m nd (extToken (dom s nd) d) s = (Inr attrStr, s1)
        \<and> mw_body d = Some b \<and> resolveExtBody m x nd (mw_name d) b s1 = (Inr (Some body), s2)
      \<longrightarrow> defaultExtensionHandler u m x nd d s
            = (Inr (''<'' @ mw_name d @ (if attrStr \<noteq> [] then '' '' @ attrStr else [])
                    @ ''>'' @ body @ ''</'' @ mw_name d @ ''>''), s2))"
proof (intro conjI impI)
  assume "truthyStr (body_html b)"
  then show "resolveExtBody m x nd name b s = bodyFromHtml m name (strOf (body_html b)) s"
    by (cases "body_html b") (simp_all add: resolveExtBody_def)
next
  assume "(isString (body_html b) \<or> isString (body_id b)) \<and> \<not> truthyStr (body_html b)
        \<and> ownerGetElementById x s nd (body_id b) = Some e"
  then show "resolveExtBody m x nd name b s = bodyFromHtml m name (innerHTML e) s"
    by (simp add: resolveExtBody_def lookupBodyElt_def)
next
  assume "(isString (body_html b) \<or> isString (body_id b)) \<and> \<not> truthyStr (body_html b)
        \<and> ownerGetElementById x s nd (body_id b) = None \<and> editedDoc x s = Some ed
        \<and> ed_getElementById ed (body_id b) = Some e"
  then show "resolveExtBody m x nd name b s = bodyFromHtml m name (innerHTML e) s"
    by (simp add: resolveExtBody_def lookupBodyElt_def)
next
  assume "(isString (body_html b) \<or> isString (body_id b)) \<and> \<not> truthyStr (body_html b)
        \<and> lookupBodyElt x nd (body_id b) s = None \<and> extraDebugInfo x nd s = Inr dbg"
  then show "resolveExtBody m x nd name b s
            = (Inr None, s\<lparr>envlog := envlog s @ [missingBodyError name (body_id b) (dom s nd) dbg]\<rparr>)"
    by (simp add: resolveExtBody_def)
next
  assume "\<not> isString (body_html b) \<and> \<not> isString (body_id b) \<and> body_extsrc b = SStr src"
  then show "resolveExtBody m x nd name b s = (Inr (Some src), s)"
    by (simp add: resolveExtBody_def)
next
  assume "\<not> isString (body_html b) \<and> \<not> isString (body_id b)
        \<and> (body_extsrc b = SNull \<or> body_extsrc b = SUndef)"
  then show "resolveExtBody m x nd name b s
            = (Inr (Some []), s\<lparr>envlog := envlog s @ [unavailableError (dom s nd)]\<rparr>)"
    by (auto simp: resolveExtBody_def)
next
  assume "serializeAttributes u m nd (extToken (dom s nd) d) s = (Inr attrStr, s1)
        \<and> mw_body d = Some b \<and> resolveExtBody m x nd (mw_name d) b s1 = (Inr None, s2)"
  then show "defaultExtensionHandler u m x nd d s = (Inr [], s2)"
    by (simp add: defaultExtensionHandler_def Let_def)
next
  assume "serializeAttributes u m nd (extToken (dom s nd) d) s = (Inr attrStr, s1)
        \<and> mw_body d = Some b \<and> resolveExtBody m x nd (mw_name d) b s1 = (Inr (Some body), s2)"
  then show "defaultExtensionHandler u m x nd d s
            = (Inr (''<'' @ mw_name d @ (if attrStr \<noteq> [] then '' '' @ attrStr else [])
                    @ ''>'' @ body @ ''</'' @ mw_name d @ ''>''), s2)"
    by (simp add: defaultExtensionHandler_def Let_def)
qed

lemma sample_no_ext_attrs:
  "serializeAttributes sampleUtil sampleModules 1 (extToken (dom sampleState 1) (refCall b)) sampleState
     = (Inr [], sampleState)"
  by (simp add: serializeAttributes_def restoreSanitized_def extToken_def refCall_def emptyDp_def
        Let_def sampleState_def sampleDom_def sampleNode_def)

theorem extension_body_resolution_witness:
  "defaultExtensionHandler sampleUtil sampleModules sampleDocs 1
      (refCall \<lparr>body_html = SUndef, body_id = SStr ''mw-ref-1'', body_extsrc = SUndef\<rparr>) sampleState
     = (Inr ''<ref>cite</ref>'', sampleState)"
proof -
  let ?b = "\<lparr>body_html = SUndef, body_id = SStr ''mw-ref-1'', body_extsrc = SUndef\<rparr>"
  let ?e = "\<lparr>innerHTML = ''cite'', elemOuterHTML = ''<span id=mw-ref-1>cite</span>''\<rparr>"
  note t = extension_body_resolution [of ?b sampleModules sampleDocs 1 "''ref''" sampleState ?e
      undefined undefined undefined sampleUtil "refCall ?b" "[]" sampleState sampleState "''cite''"]
  have a: "resolveExtBody sampleModules sampleDocs 1 ''ref'' ?b sampleState
             = bodyFromHtml sampleModules ''ref'' (innerHTML ?e) sampleState"
    using t by (simp add: sampleDocs_def)
  have b: "bodyFromHtml sampleModules ''ref'' (innerHTML ?e) sampleState = (Inr (Some ''cite''), sampleState)"
    by (simp add: bodyFromHtml_def sampleModules_def)
  have c: "mw_body (refCall ?b) = Some ?b" "mw_name (refCall ?b) = ''ref''"
    by (simp_all add: refCall_def)
  from t a b c sample_no_ext_attrs [of ?b] show ?thesis
    by simp
qed

text \<open>
  Two calls that show it. A body with none of \<open>html\<close>, \<open>id\<close> and \<open>extsrc\<close> is
  not dropped: the tags are written around an empty body. And a body whose \<open>id\<close> points
  to no element is dropped although its \<open>extsrc\<close> is there.
\<close>

theorem extension_not_dropped_counterexample:
  "fst (defaultExtensionHandler sampleUtil sampleModules sampleDocs 1
          (refCall \<lparr>body_html = SUndef, body_id = SUndef, body_extsrc = SUndef\<rparr>) sampleState)
     = Inr ''<ref></ref>''
   \<and> fst (defaultExtensionHandler sampleUtil sampleModules sampleDocs 1
          (refCall \<lparr>body_html = SUndef, body_id = SStr ''gone'', body_extsrc = SStr ''foo''\<rparr>)
          sampleState)
     = Inr []"
  by (simp only: defaultExtensionHandler_def sample_no_ext_attrs)
     (simp add: resolveExtBody_def lookupBodyElt_def extraDebugInfo_def refCall_def
        sampleDocs_def Let_def)

section \<open>Properties of the split of a line at quotes, brackets and tags\<close>

lemma length_takeWhile_less:
  "x \<in> set xs \<Longrightarrow> \<not> P x \<Longrightarrow> length (takeWhile P xs) < length xs"
  by (induction xs) auto

lemma length_takeWhile_dropWhile:
  "length (takeWhile P xs) + length (dropWhile P xs) = length xs"
  by (induction xs) auto

lemma take1_nonempty: "take 1 t = [c] \<Longrightarrow> 1 \<le> length t"
  by (cases t) auto

lemma openTagLen_bounds:
  assumes "openTagLen r = Some n"
  shows "1 \<le> n \<and> n \<le> Suc (length r)"
proof (cases "dropWhile is_word r")
  case Nil
  with assms show ?thesis by (simp add: openTagLen_def Let_def split: if_splits)
next
  case (Cons c r2)
  have l: "length (takeWhile is_word r) + Suc (length r2) = length r"
    using length_takeWhile_dropWhile [of is_word r] Cons by simp
  have t: "CHR ''>'' \<in> set (c # r2)
      \<Longrightarrow> length (takeWhile (\<lambda>ch. ch \<noteq> CHR ''>'') (c # r2)) < Suc (length r2)"
    using length_takeWhile_less [of "CHR ''>''" "c # r2" "\<lambda>ch. ch \<noteq> CHR ''>''"] by simp
  have u: "take 1 r2 = ''>'' \<Longrightarrow> 1 \<le> length r2"
    by (rule take1_nonempty)
  from assms Cons have
    "(is_space c \<and> CHR ''>'' \<in> set (c # r2)
        \<and> n = 1 + length (takeWhile is_word r) + length (takeWhile (\<lambda>ch. ch \<noteq> CHR ''>'') (c # r2)) + 1)
     \<or> (c = CHR ''>'' \<and> n = 1 + length (takeWhile is_word r) + 1)
     \<or> (take 1 r2 = ''>'' \<and> n = 1 + length (takeWhile is_word r) + 2)"
    by (simp add: openTagLen_def Let_def split: if_splits)
  with l t u show ?thesis by auto
qed

lemma closeTagLen_bounds:
  assumes "closeTagLen r = Some n"
  shows "1 \<le> n \<and> n \<le> Suc (length r)"
proof -
  from assms obtain r0 where r: "r = CHR ''/'' # r0"
    by (cases r) (auto simp: closeTagLen_def split: if_splits)
  let ?r1 = "dropWhile is_word r0"
  have l: "length (takeWhile is_word r0) + length ?r1 = length r0"
    by (rule length_takeWhile_dropWhile)
  have l2: "length (takeWhile is_space ?r1) + length (dropWhile is_space ?r1) = length ?r1"
    by (rule length_takeWhile_dropWhile)
  from assms r have n: "n = 2 + length (takeWhile is_word r0) + length (takeWhile is_space ?r1) + 1"
    and g: "take 1 (dropWhile is_space ?r1) = ''>''"
    by (simp_all add: closeTagLen_def Let_def split: if_splits)
  from g have "1 \<le> length (dropWhile is_space ?r1)" by (rule take1_nonempty)
  with n l l2 r show ?thesis by simp
qed

lemma take_eq_length: "take k t = u \<Longrightarrow> length u = k \<Longrightarrow> k \<le> length t"
  by (induction t arbitrary: k u) (auto simp: take_Cons split: nat.splits)

lemma tokenLen_bounds:
  assumes "tokenLen t = Some n"
  shows "1 \<le> n \<and> n \<le> length t"
proof -
  consider (q5) "take 5 t = [SQ, SQ, SQ, SQ, SQ]"
    | (q3) "take 5 t \<noteq> [SQ, SQ, SQ, SQ, SQ]" "take 3 t = [SQ, SQ, SQ]"
    | (q2) "take 5 t \<noteq> [SQ, SQ, SQ, SQ, SQ]" "take 3 t \<noteq> [SQ, SQ, SQ]" "take 2 t = [SQ, SQ]"
    | (br) "take 5 t \<noteq> [SQ, SQ, SQ, SQ, SQ]" "take 3 t \<noteq> [SQ, SQ, SQ]" "take 2 t \<noteq> [SQ, SQ]"
           "take 2 t = ''[['' \<or> take 2 t = '']]'' \<or> take 2 t = ''{{'' \<or> take 2 t = ''}}''"
    | (tg) "take 5 t \<noteq> [SQ, SQ, SQ, SQ, SQ]" "take 3 t \<noteq> [SQ, SQ, SQ]" "take 2 t \<noteq> [SQ, SQ]"
           "\<not> (take 2 t = ''[['' \<or> take 2 t = '']]'' \<or> take 2 t = ''{{'' \<or> take 2 t = ''}}'')"
    by blast
  then show ?thesis
  proof cases
    case q5
    with assms have "n = 5" by (simp add: tokenLen_def)
    with take_eq_length [OF q5] show ?thesis by simp
  next
    case q3
    with assms have "n = 3" by (simp add: tokenLen_def)
    with take_eq_length [OF q3(2)] show ?thesis by simp
  next
    case q2
    with assms have "n = 2" by (simp add: tokenLen_def)
    with take_eq_length [OF q2(3)] show ?thesis by simp
  next
    case br
    with assms have "n = 2" by (simp add: tokenLen_def)
    moreover from br(4) have "2 \<le> length t"
      using take_eq_length [of 2 t "''[[''"] take_eq_length [of 2 t "'']]''"]
        take_eq_length [of 2 t "''{{''"] take_eq_length [of 2 t "''}}''"]
      by (elim disjE) simp_all
    ultimately show ?thesis by simp
  next
    case tg
    with assms obtain c r where t: "t = c # r"
      and "(case openTagLen r of Some n \<Rightarrow> Some n | None \<Rightarrow> closeTagLen r) = Some n"
      by (cases t) (auto simp: tokenLen_def split: if_splits)
    then have "openTagLen r = Some n \<or> closeTagLen r = Some n"
      by (auto split: option.splits)
    with t show ?thesis
      using openTagLen_bounds [of r n] closeTagLen_bounds [of r n] by auto
  qed
qed

lemma concat_splitAcc: "concat (splitAcc acc t) = rev acc @ t"
proof (induction acc t rule: splitAcc.induct)
  case (1 acc)
  show ?case by simp
next
  case (2 acc c r)
  show ?case
  proof (cases "tokenLen (c # r)")
    case None
    with 2 show ?thesis by simp
  next
    case (Some n)
    then have n: "1 \<le> n" using tokenLen_bounds by blast
    then have "take n (c # r) @ drop (n - 1) r = c # r"
      by (cases n) simp_all
    with 2 Some show ?thesis by simp
  qed
qed

lemma odd_length_splitAcc: "odd (length (splitAcc acc t))"
  by (induction acc t rule: splitAcc.induct) (auto split: option.splits)

lemma quoteLoop_step:
  "j < n \<Longrightarrow> quoteLoop p n j st =
     (case quoteStep p j st of None \<Rightarrow> None | Some st1 \<Rightarrow> quoteLoop p n (j + 2) st1)"
  by (subst quoteLoop.simps) simp

lemma quoteLoop_done: "\<not> j < n \<Longrightarrow> quoteLoop p n j st = Some st"
  by (subst quoteLoop.simps) simp

lemma quoteLoop_extend:
  "i \<le> n \<Longrightarrow> even (n - i) \<Longrightarrow>
     quoteLoop p (n + 2) i st =
       (case quoteLoop p n i st of None \<Rightarrow> None | Some sj \<Rightarrow> quoteStep p n sj)"
proof (induction p n i st rule: quoteLoop.induct)
  case (1 p n j st)
  show ?case
  proof (cases "j < n")
    case True
    with 1(2,3) have le: "j + 2 \<le> n" and ev: "even (n - (j + 2))"
      by presburger+
    from True have a: "quoteLoop p (n + 2) j st =
        (case quoteStep p j st of None \<Rightarrow> None | Some st1 \<Rightarrow> quoteLoop p (n + 2) (j + 2) st1)"
      by (intro quoteLoop_step) simp
    from True have b: "quoteLoop p n j st =
        (case quoteStep p j st of None \<Rightarrow> None | Some st1 \<Rightarrow> quoteLoop p n (j + 2) st1)"
      by (rule quoteLoop_step)
    show ?thesis
    proof (cases "quoteStep p j st")
      case None
      then show ?thesis by (simp only: a b option.case)
    next
      case (Some st1)
      with 1(1) [OF True Some le ev] show ?thesis by (simp only: a b option.case)
    qed
  next
    case False
    with 1(2) have jn: "j = n" by simp
    have a: "quoteLoop p (n + 2) n st =
        (case quoteStep p n st of None \<Rightarrow> None | Some st1 \<Rightarrow> quoteLoop p (n + 2) (n + 2) st1)"
      by (intro quoteLoop_step) simp
    have b: "quoteLoop p n n st = Some st"
      by (intro quoteLoop_done) simp
    have c: "quoteLoop p (n + 2) (n + 2) t = Some t" for t
      by (intro quoteLoop_done) simp
    show ?thesis
      unfolding jn a b c by (simp split: option.splits)
  qed
qed

lemma quoteStep_nowikiIndex:
  assumes "quoteStep p j st = Some st1"
  shows "nowikiIndex st1 =
     (if tagOf (p ! j) = ''nowiki/'' \<and> \<not> inRefSection st \<and> \<not> inNowikiSection st
         \<and> strippable p j st
      then Some j else nowikiIndex st)"
  using assms
  by (auto simp: quoteStep_def Let_def split: if_splits list.splits)

lemma last_candidate:
  "quoteLoop p (2 * m + 1) 1 initQuoteState = Some sb \<Longrightarrow> 2 * m + 1 \<le> length p \<Longrightarrow>
     (case nowikiIndex sb of
        None \<Rightarrow> \<forall>j < 2 * m + 1. \<not> stripCandidate p j
      | Some j \<Rightarrow> j < 2 * m + 1 \<and> stripCandidate p j
                   \<and> (\<forall>j'. j < j' \<and> j' < 2 * m + 1 \<longrightarrow> \<not> stripCandidate p j'))"
proof (induction m arbitrary: sb)
  case 0
  then have "sb = initQuoteState"
    by (simp add: quoteLoop_done)
  then show ?case
    by (auto simp: initQuoteState_def stripCandidate_def)
next
  case (Suc m)
  let ?b = "2 * m + 1"
  have "quoteLoop p (?b + 2) 1 initQuoteState =
          (case quoteLoop p ?b 1 initQuoteState of None \<Rightarrow> None | Some sj \<Rightarrow> quoteStep p ?b sj)"
    by (rule quoteLoop_extend) simp_all
  with Suc.prems(1) obtain sj where sj: "quoteLoop p ?b 1 initQuoteState = Some sj"
    and st: "quoteStep p ?b sj = Some sb"
    by (auto split: option.splits)
  from Suc.prems(2) have lt: "?b < length p" by simp
  note ih = Suc.IH [OF sj] 
  have cand: "stripCandidate p ?b \<longleftrightarrow>
      (tagOf (p ! ?b) = ''nowiki/'' \<and> \<not> inRefSection sj \<and> \<not> inNowikiSection sj
         \<and> strippable p ?b sj)"
    using sj lt by (simp add: stripCandidate_def)
  have even_no: "\<not> stripCandidate p (?b + 1)"
    by (simp add: stripCandidate_def)
  have idx: "nowikiIndex sb = (if stripCandidate p ?b then Some ?b else nowikiIndex sj)"
    using quoteStep_nowikiIndex [OF st] cand by simp
  have split: "j < 2 * Suc m + 1 \<longleftrightarrow> j < ?b \<or> j = ?b \<or> j = ?b + 1" for j
    by auto
  have above: "\<not> stripCandidate p j'" if "?b < j'" and "j' < 2 * Suc m + 1" for j'
  proof -
    from that have "j' = ?b + 1" by simp
    with even_no show ?thesis by simp
  qed
  show ?case
  proof (cases "stripCandidate p ?b")
    case True
    with idx above show ?thesis by simp
  next
    case False
    with idx have same: "nowikiIndex sb = nowikiIndex sj" by simp
    have rest: "\<not> stripCandidate p j'" if "?b \<le> j'" and "j' < 2 * Suc m + 1" for j'
      using that above [of j'] False by (cases "j' = ?b") simp_all
    show ?thesis
    proof (cases "nowikiIndex sj")
      case None
      with ih lt have "\<forall>j < ?b. \<not> stripCandidate p j" by simp
      with rest have "\<forall>j < 2 * Suc m + 1. \<not> stripCandidate p j"
        by (metis not_le)
      with None same show ?thesis by simp
    next
      case (Some j)
      with ih lt have j: "j < ?b" "stripCandidate p j"
        and nb: "\<forall>j'. j < j' \<and> j' < ?b \<longrightarrow> \<not> stripCandidate p j'" by simp_all
      from nb rest have "\<forall>j'. j < j' \<and> j' < 2 * Suc m + 1 \<longrightarrow> \<not> stripCandidate p j'"
        by (metis not_le)
      with Some same j show ?thesis by simp
    qed
  qed
qed

section \<open>Properties of the strip of trailing nowikis\<close>

















section \<open>Properties of the strip of nowikis next to quotes\<close>

text \<open>
  The line function in terms of its loop. A line is the concatenation of its split. When
  the loop returns early, or leaves a stack that is not empty, the line is returned as
  it is. Otherwise at most one token is removed from the line: the last self-closing
  nowiki that is a candidate for stripping, and only when the line passes the test of
  line 1070 (it has a \<open><nowiki/>\<close> and a quote); with no candidate the line is returned
  as it is.
\<close>

lemma stripQuoteNowikiLine_cases:
  "let p = splitQuoteLine line; r = quoteLoop p (length p) 1 initQuoteState in
     concat p = line
     \<and> (r = None \<longrightarrow> stripQuoteNowikiLine line = line)
     \<and> (\<forall>st. r = Some st \<and> stack st \<noteq> [] \<longrightarrow> stripQuoteNowikiLine line = line)
     \<and> (\<forall>st. r = Some st \<and> stack st = [] \<longrightarrow>
          (case nowikiIndex st of
             None \<Rightarrow> stripQuoteNowikiLine line = line \<and> (\<forall>j. \<not> stripCandidate p j)
           | Some j \<Rightarrow>
               stripCandidate p j \<and> (\<forall>j'. j < j' \<longrightarrow> \<not> stripCandidate p j')
               \<and> stripQuoteNowikiLine line =
                   (if hasNowiki line \<and> SQ \<in> set line then concat (p[j := []]) else line)))"
proof -
  let ?p = "splitQuoteLine line"
  let ?r = "quoteLoop ?p (length ?p) 1 initQuoteState"
  have c: "concat ?p = line"
    by (simp add: splitQuoteLine_def concat_splitAcc)
  have "odd (length ?p)"
    by (simp add: splitQuoteLine_def odd_length_splitAcc)
  then obtain m where m: "length ?p = 2 * m + 1"
    by (auto elim: oddE)
  have far: "\<not> stripCandidate ?p j" if "length ?p \<le> j" for j
    using that by (simp add: stripCandidate_def)
  have 1: "?r = None \<longrightarrow> stripQuoteNowikiLine line = line"
    by (simp add: stripQuoteNowikiLine_def Let_def)
  have 2: "\<forall>st. ?r = Some st \<and> stack st \<noteq> [] \<longrightarrow> stripQuoteNowikiLine line = line"
    by (auto simp: stripQuoteNowikiLine_def Let_def)
  have 3: "\<forall>st. ?r = Some st \<and> stack st = [] \<longrightarrow>
          (case nowikiIndex st of
             None \<Rightarrow> stripQuoteNowikiLine line = line \<and> (\<forall>j. \<not> stripCandidate ?p j)
           | Some j \<Rightarrow>
               stripCandidate ?p j \<and> (\<forall>j'. j < j' \<longrightarrow> \<not> stripCandidate ?p j')
               \<and> stripQuoteNowikiLine line =
                   (if hasNowiki line \<and> SQ \<in> set line then concat (?p[j := []]) else line))"
  proof (intro allI impI)
    fix st
    assume a: "?r = Some st \<and> stack st = []"
    then have run: "quoteLoop ?p (2 * m + 1) 1 initQuoteState = Some st"
      using m by simp
    note lc = last_candidate [OF run, unfolded m [symmetric], OF order_refl]
    show "case nowikiIndex st of
             None \<Rightarrow> stripQuoteNowikiLine line = line \<and> (\<forall>j. \<not> stripCandidate ?p j)
           | Some j \<Rightarrow>
               stripCandidate ?p j \<and> (\<forall>j'. j < j' \<longrightarrow> \<not> stripCandidate ?p j')
               \<and> stripQuoteNowikiLine line =
                   (if hasNowiki line \<and> SQ \<in> set line then concat (?p[j := []]) else line)"
    proof (cases "nowikiIndex st")
      case None
      with lc have "\<forall>j < length ?p. \<not> stripCandidate ?p j" by simp
      with far have "\<forall>j. \<not> stripCandidate ?p j" by (metis not_le)
      with None a show ?thesis
        by (simp add: stripQuoteNowikiLine_def Let_def)
    next
      case (Some j)
      with lc have j: "stripCandidate ?p j"
        and n: "\<forall>j'. j < j' \<and> j' < length ?p \<longrightarrow> \<not> stripCandidate ?p j'" by simp_all
      from n far have "\<forall>j'. j < j' \<longrightarrow> \<not> stripCandidate ?p j'" by (metis not_le)
      with Some a j show ?thesis
        by (simp add: stripQuoteNowikiLine_def Let_def)
    qed
  qed
  from c 1 2 3 show ?thesis by (simp only: Let_def)
qed

text \<open>
  The line of the code's own comment: of its two nowikis the second is the last
  candidate, and it is the one that goes.
\<close>

lemma quoteLine1_run:
  "quoteLoop (splitQuoteLine quoteLine1) (length (splitQuoteLine quoteLine1)) 1 initQuoteState
     = Some \<lparr>stack = [], quotesOnStack = 0, inNowikiSection = False, inRefSection = False,
             nowikiIndex = Some 5\<rparr>"
  by code_simp

lemma quoteLine1_strip:
  "concat ((splitQuoteLine quoteLine1)[5 := []])
     = [SQ, SQ] @ ''<nowiki/>'' @ [SQ] @ ''foo'' @ [SQ, SQ, SQ]"
  by code_simp

lemma quoteLine1_check: "hasNowiki quoteLine1 \<and> SQ \<in> set quoteLine1"
  by code_simp

lemma quoteLine1_last_candidate:
  "stripQuoteNowikiLine quoteLine1 = [SQ, SQ] @ ''<nowiki/>'' @ [SQ] @ ''foo'' @ [SQ, SQ, SQ]
   \<and> stripCandidate (splitQuoteLine quoteLine1) 5
   \<and> \<not> stripCandidate (splitQuoteLine quoteLine1) 7"
proof -
  let ?p = "splitQuoteLine quoteLine1"
  let ?st = "\<lparr>stack = [], quotesOnStack = 0, inNowikiSection = False, inRefSection = False,
             nowikiIndex = Some 5\<rparr>"
  from stripQuoteNowikiLine_cases [of quoteLine1]
  have "\<forall>st. quoteLoop ?p (length ?p) 1 initQuoteState = Some st \<and> stack st = [] \<longrightarrow>
          (case nowikiIndex st of
             None \<Rightarrow> stripQuoteNowikiLine quoteLine1 = quoteLine1 \<and> (\<forall>j. \<not> stripCandidate ?p j)
           | Some j \<Rightarrow>
               stripCandidate ?p j \<and> (\<forall>j'. j < j' \<longrightarrow> \<not> stripCandidate ?p j')
               \<and> stripQuoteNowikiLine quoteLine1 =
                   (if hasNowiki quoteLine1 \<and> SQ \<in> set quoteLine1
                    then concat (?p[j := []]) else quoteLine1))"
    by (simp only: Let_def) blast
  then have "case nowikiIndex ?st of
             None \<Rightarrow> stripQuoteNowikiLine quoteLine1 = quoteLine1 \<and> (\<forall>j. \<not> stripCandidate ?p j)
           | Some j \<Rightarrow>
               stripCandidate ?p j \<and> (\<forall>j'. j < j' \<longrightarrow> \<not> stripCandidate ?p j')
               \<and> stripQuoteNowikiLine quoteLine1 =
                   (if hasNowiki quoteLine1 \<and> SQ \<in> set quoteLine1
                    then concat (?p[j := []]) else quoteLine1)"
    using quoteLine1_run by simp
  then have "stripCandidate ?p 5 \<and> (\<forall>j'. 5 < j' \<longrightarrow> \<not> stripCandidate ?p j')
      \<and> stripQuoteNowikiLine quoteLine1 = concat (?p[5 := []])"
    using quoteLine1_check by simp
  then show ?thesis
    by (simp add: quoteLine1_strip)
qed

text \<open>
  C7. A closing tag that finds no opener is a failed pairing: line 1122 compares the
  tag with the opener that \<open>stack.pop()\<close> gives, and returns the line when the two differ.
  But the pop of an empty stack gives \<open>undefined\<close>, and \<open>'/' + undefined\<close> is the text
  \<open>/undefined\<close>, so that the closing tag \<open></undefined>\<close> passes the comparison with no
  opener at all. On the line \<open>a'<nowiki/></undefined>\<close> the stack is empty when the loop
  gets to the closing tag (place 3 of the split), the pairing is taken to hold, and the
  nowiki is stripped. The same line with \<open></span>\<close> for the closing tag is returned as
  it is, and so is a line whose \<open>]]\<close> has no opener.
\<close>

theorem close_tag_without_opener:
  "splitQuoteLine quoteLine3 = [''a'' @ [SQ], ''<nowiki/>'', [], ''</undefined>'', []]
   \<and> map_option stack (quoteLoop (splitQuoteLine quoteLine3) 3 1 initQuoteState) = Some []
   \<and> stripQuoteNowikiLine quoteLine3 = ''a'' @ [SQ] @ ''</undefined>''
   \<and> stripQuoteNowikiLine quoteLine4 = quoteLine4
   \<and> stripQuoteNowikiLine quoteLine5 = quoteLine5"
  by code_simp

section \<open>Properties of the post-pass under repetition\<close>













end
